theory Spec2Isabelle
  imports Main "HOL-Library.Product_Lexorder" "HOL-Library.Multiset"
begin

section \<open>Builtin types of the shading language (builtins, \<open>Type\<close>)\<close>

text \<open>
  The token identifiers \<open>Tn.T_*\<close> that the builtin catalogue mentions. In the source they
  are numeric constants of the tokenizer; only their identity matters here. The names are
  the ones the catalogue writes, including \<open>T_LEFT_ANGLE_OP\<close>.
\<close>

datatype token =
    T_VOID
  | T_FLOAT | T_INT | T_BOOL
  | T_VEC2 | T_VEC3 | T_VEC4
  | T_BVEC2 | T_BVEC3 | T_BVEC4
  | T_IVEC2 | T_IVEC3 | T_IVEC4
  | T_MAT2 | T_MAT3 | T_MAT4
  | T_SAMPLER2D | T_SAMPLERCUBE
  | T_PLUS | T_DASH | T_STAR | T_SLASH
  | T_LEFT_ANGLE_OP | T_RIGHT_ANGLE | T_LE_OP | T_GE_OP
  | T_EQ_OP | T_NE_OP
  | T_AND_OP | T_OR_OP | T_XOR_OP
  | T_DEC_OP | T_INC_OP | T_BANG

text \<open>\<open>Type._is_vec\<close>, \<open>Type._is_mat\<close>, ...: a \<open>switch\<close> over the token, \<open>false\<close> by default.\<close>

definition Type_is_vec :: "token \<Rightarrow> bool" where
  "Type_is_vec tok =
     (case tok of
        T_VEC2 \<Rightarrow> True | T_VEC3 \<Rightarrow> True | T_VEC4 \<Rightarrow> True
      | T_BVEC2 \<Rightarrow> True | T_BVEC3 \<Rightarrow> True | T_BVEC4 \<Rightarrow> True
      | T_IVEC2 \<Rightarrow> True | T_IVEC3 \<Rightarrow> True | T_IVEC4 \<Rightarrow> True
      | _ \<Rightarrow> False)"

definition Type_is_mat :: "token \<Rightarrow> bool" where
  "Type_is_mat tok =
     (case tok of T_MAT2 \<Rightarrow> True | T_MAT3 \<Rightarrow> True | T_MAT4 \<Rightarrow> True | _ \<Rightarrow> False)"

definition Type_is_scalar :: "token \<Rightarrow> bool" where
  "Type_is_scalar tok =
     (case tok of T_FLOAT \<Rightarrow> True | T_INT \<Rightarrow> True | T_BOOL \<Rightarrow> True | _ \<Rightarrow> False)"

definition Type_is_int :: "token \<Rightarrow> bool" where
  "Type_is_int tok =
     (case tok of
        T_INT \<Rightarrow> True | T_IVEC2 \<Rightarrow> True | T_IVEC3 \<Rightarrow> True | T_IVEC4 \<Rightarrow> True
      | _ \<Rightarrow> False)"

definition Type_is_bool :: "token \<Rightarrow> bool" where
  "Type_is_bool tok =
     (case tok of
        T_BOOL \<Rightarrow> True | T_BVEC2 \<Rightarrow> True | T_BVEC3 \<Rightarrow> True | T_BVEC4 \<Rightarrow> True
      | _ \<Rightarrow> False)"

definition Type_is_float :: "token \<Rightarrow> bool" where
  "Type_is_float tok =
     (case tok of
        T_FLOAT \<Rightarrow> True
      | T_VEC2 \<Rightarrow> True | T_VEC3 \<Rightarrow> True | T_VEC4 \<Rightarrow> True
      | T_MAT2 \<Rightarrow> True | T_MAT3 \<Rightarrow> True | T_MAT4 \<Rightarrow> True
      | _ \<Rightarrow> False)"

text \<open>\<open>Type._length\<close>: 0 for every token outside the switch.\<close>

definition Type_length :: "token \<Rightarrow> nat" where
  "Type_length tok =
     (case tok of
        T_FLOAT \<Rightarrow> 1 | T_INT \<Rightarrow> 1 | T_BOOL \<Rightarrow> 1
      | T_VEC2 \<Rightarrow> 2 | T_IVEC2 \<Rightarrow> 2 | T_BVEC2 \<Rightarrow> 2 | T_MAT2 \<Rightarrow> 2
      | T_VEC3 \<Rightarrow> 3 | T_IVEC3 \<Rightarrow> 3 | T_BVEC3 \<Rightarrow> 3 | T_MAT3 \<Rightarrow> 3
      | T_VEC4 \<Rightarrow> 4 | T_IVEC4 \<Rightarrow> 4 | T_BVEC4 \<Rightarrow> 4 | T_MAT4 \<Rightarrow> 4
      | _ \<Rightarrow> 0)"

text \<open>
  \<open>Type._name\<close>: the switch has no default, so any other token gives \<open>undefined\<close>,
  here \<open>None\<close>.
\<close>

definition Type_name :: "token \<Rightarrow> string option" where
  "Type_name tok =
     (case tok of
        T_VOID \<Rightarrow> Some ''void''
      | T_FLOAT \<Rightarrow> Some ''float'' | T_INT \<Rightarrow> Some ''int'' | T_BOOL \<Rightarrow> Some ''bool''
      | T_VEC2 \<Rightarrow> Some ''vec2'' | T_VEC3 \<Rightarrow> Some ''vec3'' | T_VEC4 \<Rightarrow> Some ''vec4''
      | T_BVEC2 \<Rightarrow> Some ''bvec2'' | T_BVEC3 \<Rightarrow> Some ''bvec3'' | T_BVEC4 \<Rightarrow> Some ''bvec4''
      | T_IVEC2 \<Rightarrow> Some ''ivec2'' | T_IVEC3 \<Rightarrow> Some ''ivec3'' | T_IVEC4 \<Rightarrow> Some ''ivec4''
      | T_MAT2 \<Rightarrow> Some ''mat2'' | T_MAT3 \<Rightarrow> Some ''mat3'' | T_MAT4 \<Rightarrow> Some ''mat4''
      | T_SAMPLER2D \<Rightarrow> Some ''sampler2D'' | T_SAMPLERCUBE \<Rightarrow> Some ''samplerCube''
      | _ \<Rightarrow> None)"

text \<open>The object built by \<open>new Type(id)\<close>.\<close>

record Type =
  tid :: token
  name :: "string option"
  incomplete :: bool
  is_scalar :: bool
  is_vec :: bool
  is_mat :: bool
  is_int :: bool
  is_float :: bool
  is_bool :: bool
  tlength :: nat
  is_builtin :: bool

definition new_Type :: "token \<Rightarrow> Type" where
  "new_Type i =
     \<lparr> tid = i, name = Type_name i, incomplete = False,
       is_scalar = Type_is_scalar i, is_vec = Type_is_vec i, is_mat = Type_is_mat i,
       is_int = Type_is_int i, is_float = Type_is_float i, is_bool = Type_is_bool i,
       tlength = Type_length i, is_builtin = True \<rparr>"

text \<open>The element kind of a type, read off its three kind flags.\<close>

datatype elem_kind = KFloat | KInt | KBool

definition elem_kinds :: "Type \<Rightarrow> elem_kind list" where
  "elem_kinds t =
     (if is_float t then [KFloat] else []) @ (if is_int t then [KInt] else [])
       @ (if is_bool t then [KBool] else [])"

section \<open>The builtin tables (\<open>exports\<close>)\<close>

text \<open>
  A type declaration registered by \<open>Type._create_builtin\<close>. The declaration and the
  \<open>glsl.ast.Type\<close> node it owns are one record here: the node's token (identifier and
  text) and the builtin \<open>Type\<close> stored in the node's \<open>type\<close> field.
\<close>

record TypeDecl =
  type_token :: token
  type_text :: "string option"
  type_type :: Type

text \<open>A parameter of a builtin function header: \<open>decl.type = p.type\<close>, \<open>decl.name\<close>.\<close>

record ParamDecl =
  ptype :: TypeDecl
  pname :: string

text \<open>
  A builtin function prototype with its header: the return type declaration
  (\<open>header.type.type\<close>), the name and the parameters.
\<close>

record FunctionProto =
  fret :: TypeDecl
  fname :: string
  parameters :: "ParamDecl list"

text \<open>
  An \<open>Operator\<close> object. A binary operator has \<open>lhs\<close> and \<open>rhs\<close>, a unary one \<open>expr\<close>;
  a field the object does not have is \<open>None\<close>.
\<close>

record Operator =
  op :: token
  ret :: Type
  lhs :: "Type option"
  rhs :: "Type option"
  expr :: "Type option"

text \<open>
  The \<open>exports\<close> object: three ordered lists and three dictionaries. \<open>TypeMap\<close> is keyed
  by token, \<open>FunctionMap\<close> and \<open>OperatorMap\<close> by signature string.
\<close>

record exports =
  Types :: "TypeDecl list"
  TypeMap :: "token \<rightharpoonup> TypeDecl"
  Functions :: "FunctionProto list"
  FunctionMap :: "string \<rightharpoonup> FunctionProto"
  Operators :: "Operator list"
  OperatorMap :: "string \<rightharpoonup> Operator"

text \<open>String concatenation with a value that may be \<open>undefined\<close>.\<close>

definition js_str :: "string option \<Rightarrow> string" where
  "js_str s = (case s of None \<Rightarrow> ''undefined'' | Some x \<Rightarrow> x)"

text \<open>
  A loop whose body may throw: the first exception ends it (\<open>None\<close>), otherwise the state
  is threaded through the iterations in order.
\<close>

fun for_each :: "('a \<Rightarrow> 's \<Rightarrow> 's option) \<Rightarrow> 'a list \<Rightarrow> 's \<Rightarrow> 's option" where
  "for_each body [] s = Some s"
| "for_each body (x # xs) s =
     (case body x s of None \<Rightarrow> None | Some s' \<Rightarrow> for_each body xs s')"

subsection \<open>\<open>Type._create_builtin\<close>\<close>

definition btypetoks :: "token list" where
  "btypetoks =
     [T_VOID,
      T_FLOAT, T_INT, T_BOOL,
      T_VEC2, T_VEC3, T_VEC4,
      T_BVEC2, T_BVEC3, T_BVEC4,
      T_IVEC2, T_IVEC3, T_IVEC4,
      T_MAT2, T_MAT3, T_MAT4,
      T_SAMPLER2D, T_SAMPLERCUBE]"

definition builtin_decl :: "token \<Rightarrow> TypeDecl" where
  "builtin_decl tok = \<lparr> type_token = tok, type_text = Type_name tok, type_type = new_Type tok \<rparr>"

text \<open>
  The loop of \<open>Type._create_builtin\<close>, from empty \<open>Types\<close> and \<open>TypeMap\<close>. The function
  and operator tables are created empty beside them. (The capitalised aliases
  \<open>exports.Float\<close>, ... are not modelled: nothing in the catalogue reads them.)
\<close>

definition Type_create_builtin :: exports where
  "Type_create_builtin =
     fold (\<lambda>tok ex. ex\<lparr> Types := Types ex @ [builtin_decl tok],
                         TypeMap := (TypeMap ex)(tok \<mapsto> builtin_decl tok) \<rparr>)
       btypetoks
       \<lparr> Types = [], TypeMap = Map.empty, Functions = [], FunctionMap = Map.empty,
         Operators = [], OperatorMap = Map.empty \<rparr>"

subsection \<open>Builtin functions\<close>

text \<open>
  A type argument of \<open>define_builtin_function\<close>: a \<open>TypeDecl\<close>, a token to look up in
  \<open>TypeMap\<close>, or \<open>undefined\<close> (what a failed lookup by a caller hands over).
\<close>

datatype typeref = Decl TypeDecl | Tok token | Undefined

definition resolve :: "exports \<Rightarrow> typeref \<Rightarrow> TypeDecl option" where
  "resolve ex r =
     (case r of Decl d \<Rightarrow> Some d | Tok t \<Rightarrow> TypeMap ex t | Undefined \<Rightarrow> None)"

text \<open>\<open>exports.TypeMap[t]\<close> as a value handed on: the declaration, or \<open>undefined\<close>.\<close>

definition lookup :: "exports \<Rightarrow> token \<Rightarrow> typeref" where
  "lookup ex t = (case TypeMap ex t of Some d \<Rightarrow> Decl d | None \<Rightarrow> Undefined)"

text \<open>
  Modelled from the spec: \<open>FunctionHeader.signature\<close> (the AST module is not part of the
  sources at hand). The spec: the signature is built by concatenating the function name
  with the comma-joined parameter type names, e.g. \<open>sin(float)\<close>.
\<close>

fun comma_join :: "string list \<Rightarrow> string" where
  "comma_join [] = []"
| "comma_join [s] = s"
| "comma_join (s # t # ss) = s @ '','' @ comma_join (t # ss)"

definition signature :: "FunctionProto \<Rightarrow> string" where
  "signature f =
     fname f @ ''('' @ comma_join (map (\<lambda>p. js_str (type_text (ptype p))) (parameters f)) @ '')''"

text \<open>
  \<open>define_builtin_function(rettype, name, params)\<close>, in its two parts. The flat array
  \<open>params\<close> (type, name, type, name, ...) is a list of pairs.

  First the header is built: the return type and every parameter type that is not a
  \<open>TypeDecl\<close> is looked up in \<open>TypeMap\<close>. Reading \<open>.id\<close> or \<open>.type\<close> of \<open>undefined\<close> throws
  a TypeError: \<open>None\<close>. The token of the return type node, built from \<open>rettype.id\<close>, plays
  no part in the tables and is left out of \<open>FunctionProto\<close>.
\<close>

definition function_header ::
  "exports \<Rightarrow> typeref \<Rightarrow> string \<Rightarrow> (typeref \<times> string) list \<Rightarrow> FunctionProto option" where
  "function_header ex rettype nm params =
     (case resolve ex rettype of
        None \<Rightarrow> None
      | Some rt \<Rightarrow>
         (case those (map (\<lambda>(p, n). map_option (\<lambda>d. \<lparr> ptype = d, pname = n \<rparr>) (resolve ex p))
                        params) of
            None \<Rightarrow> None
          | Some ps \<Rightarrow> Some \<lparr> fret = rt, fname = nm, parameters = ps \<rparr>))"

text \<open>
  Then the signature is looked up: \<open>if (sig in exports.FunctionMap) return;\<close>, otherwise the
  prototype is pushed on \<open>Functions\<close> and stored in \<open>FunctionMap\<close>.
\<close>

definition register_function :: "FunctionProto \<Rightarrow> exports \<Rightarrow> exports" where
  "register_function f ex =
     (let sig = signature f
      in if FunctionMap ex sig \<noteq> None then ex
         else ex\<lparr> Functions := Functions ex @ [f],
                   FunctionMap := (FunctionMap ex)(sig \<mapsto> f) \<rparr>)"

definition define_builtin_function ::
  "typeref \<Rightarrow> string \<Rightarrow> (typeref \<times> string) list \<Rightarrow> exports \<Rightarrow> exports option" where
  "define_builtin_function rettype nm params ex =
     (case function_header ex rettype nm params of
        None \<Rightarrow> None
      | Some f \<Rightarrow> Some (register_function f ex))"

text \<open>
  \<open>define_builtin_function_gen(gentypes, rettype, name, params)\<close>: \<open>null\<close> (\<open>None\<close>) marks a
  generic slot.
\<close>

definition define_builtin_function_gen ::
  "token list \<Rightarrow> token option \<Rightarrow> string \<Rightarrow> (token option \<times> string) list \<Rightarrow> exports
     \<Rightarrow> exports option" where
  "define_builtin_function_gen gentypes rettype nm params ex =
     (let rettype' = map_option (lookup ex) rettype
      in for_each
           (\<lambda>gt ex'.
              (let g = lookup ex' gt;
                   sp = map (\<lambda>(item, n).
                               (case item of None \<Rightarrow> g | Some t \<Rightarrow> lookup ex' t, n)) params
               in define_builtin_function (case rettype' of None \<Rightarrow> g | Some r \<Rightarrow> r) nm sp ex'))
           gentypes ex)"

definition gentype_toks :: "token list" where
  "gentype_toks = [T_FLOAT, T_VEC2, T_VEC3, T_VEC4]"

definition define_builtin_gentype_function ::
  "token option \<Rightarrow> string \<Rightarrow> (token option \<times> string) list \<Rightarrow> exports \<Rightarrow> exports option" where
  "define_builtin_gentype_function rettype nm params =
     define_builtin_function_gen gentype_toks rettype nm params"

definition mat_toks :: "token list" where
  "mat_toks = [T_MAT2, T_MAT3, T_MAT4]"

definition define_builtin_mat_function ::
  "token option \<Rightarrow> string \<Rightarrow> (token option \<times> string) list \<Rightarrow> exports \<Rightarrow> exports option" where
  "define_builtin_mat_function rettype nm params =
     define_builtin_function_gen mat_toks rettype nm params"

text \<open>
  \<open>define_builtin_relvec_function\<close>: a slot is a family marker (a string) or a token.
  \<open>vmap\<close> has the three families; a string that is no key of \<open>vmap\<close> is handed on as it
  is and finds nothing in \<open>TypeMap\<close>.
\<close>

datatype relref = Fam string | RTok token

definition vmap :: "string \<rightharpoonup> token list" where
  "vmap = [''bvec'' \<mapsto> [T_BVEC2, T_BVEC3, T_BVEC4],
           ''vec'' \<mapsto> [T_VEC2, T_VEC3, T_VEC4],
           ''ivec'' \<mapsto> [T_IVEC2, T_IVEC3, T_IVEC4]]"

definition relvec_slot :: "nat \<Rightarrow> relref \<Rightarrow> typeref" where
  "relvec_slot i r =
     (case r of
        RTok t \<Rightarrow> Tok t
      | Fam s \<Rightarrow> (case vmap s of Some toks \<Rightarrow> Tok (toks ! i) | None \<Rightarrow> Undefined))"

definition define_builtin_relvec_function ::
  "relref \<Rightarrow> string \<Rightarrow> (relref \<times> string) list \<Rightarrow> exports \<Rightarrow> exports option" where
  "define_builtin_relvec_function rettype nm params =
     for_each
       (\<lambda>i. define_builtin_function (relvec_slot i rettype) nm
               (map (\<lambda>(p, n). (relvec_slot i p, n)) params))
       [0, 1, 2]"

subsection \<open>Builtin operators\<close>

text \<open>\<open>exports.TypeMap[t].type.type\<close>; \<open>None\<close> when the lookup is \<open>undefined\<close> (a TypeError).\<close>

definition builtin_type_of :: "exports \<Rightarrow> token \<Rightarrow> Type option" where
  "builtin_type_of ex t = map_option type_type (TypeMap ex t)"

text \<open>
  The body of the inner loop of \<open>define_builtin_bin_operator_gen\<close>, for one operator token
  and one generated type, in its two parts. \<open>dtn\<close> stands for \<open>dtn.token_name\<close> of the
  tokenizer.

  First the \<open>Operator\<close> object and its signature are built; a slot that is \<open>null\<close> takes the
  generated type \<open>g\<close>.
\<close>

definition bin_operator ::
  "exports \<Rightarrow> (token \<Rightarrow> string) \<Rightarrow> token option \<Rightarrow> token option \<Rightarrow> token option \<Rightarrow> token
     \<Rightarrow> token \<Rightarrow> (string \<times> Operator) option" where
  "bin_operator ex dtn rettype l r opt g =
     (case builtin_type_of ex (case rettype of None \<Rightarrow> g | Some t \<Rightarrow> t) of
        None \<Rightarrow> None
      | Some ty_ret \<Rightarrow>
         (case builtin_type_of ex (case l of None \<Rightarrow> g | Some t \<Rightarrow> t) of
            None \<Rightarrow> None
          | Some ty_lhs \<Rightarrow>
             (case builtin_type_of ex (case r of None \<Rightarrow> g | Some t \<Rightarrow> t) of
                None \<Rightarrow> None
              | Some ty_rhs \<Rightarrow>
                 Some (dtn opt @ ''('' @ js_str (name ty_lhs) @ '','' @ js_str (name ty_rhs) @ '')'',
                       \<lparr> op = opt, ret = ty_ret, lhs = Some ty_lhs, rhs = Some ty_rhs,
                         expr = None \<rparr>))))"

text \<open>
  Then the object is pushed on \<open>Operators\<close> and stored in \<open>OperatorMap\<close> under its signature;
  there is no lookup before the store.
\<close>

definition add_operator :: "string \<times> Operator \<Rightarrow> exports \<Rightarrow> exports" where
  "add_operator so ex =
     ex\<lparr> Operators := Operators ex @ [snd so],
         OperatorMap := (OperatorMap ex)(fst so \<mapsto> snd so) \<rparr>"

definition bin_operator_entry ::
  "(token \<Rightarrow> string) \<Rightarrow> token option \<Rightarrow> token option \<Rightarrow> token option \<Rightarrow> token \<Rightarrow> token
     \<Rightarrow> exports \<Rightarrow> exports option" where
  "bin_operator_entry dtn rettype l r opt g ex =
     map_option (\<lambda>so. add_operator so ex) (bin_operator ex dtn rettype l r opt g)"

definition define_builtin_bin_operator_gen ::
  "(token \<Rightarrow> string) \<Rightarrow> token option \<Rightarrow> token list \<Rightarrow> token option \<Rightarrow> token option
     \<Rightarrow> token list \<Rightarrow> exports \<Rightarrow> exports option" where
  "define_builtin_bin_operator_gen dtn rettype optypes l r gens =
     for_each (\<lambda>opt. for_each (\<lambda>g. bin_operator_entry dtn rettype l r opt g) gens) optypes"

text \<open>The same for \<open>define_builtin_unary_operator_gen\<close>.\<close>

definition unary_operator ::
  "exports \<Rightarrow> (token \<Rightarrow> string) \<Rightarrow> token option \<Rightarrow> token option \<Rightarrow> token \<Rightarrow> token
     \<Rightarrow> (string \<times> Operator) option" where
  "unary_operator ex dtn rettype e opt g =
     (case builtin_type_of ex (case rettype of None \<Rightarrow> g | Some t \<Rightarrow> t) of
        None \<Rightarrow> None
      | Some ty_ret \<Rightarrow>
         (case builtin_type_of ex (case e of None \<Rightarrow> g | Some t \<Rightarrow> t) of
            None \<Rightarrow> None
          | Some ty_expr \<Rightarrow>
             Some (dtn opt @ ''('' @ js_str (name ty_expr) @ '')'',
                   \<lparr> op = opt, ret = ty_ret, lhs = None, rhs = None, expr = Some ty_expr \<rparr>)))"

definition unary_operator_entry ::
  "(token \<Rightarrow> string) \<Rightarrow> token option \<Rightarrow> token option \<Rightarrow> token \<Rightarrow> token
     \<Rightarrow> exports \<Rightarrow> exports option" where
  "unary_operator_entry dtn rettype e opt g ex =
     map_option (\<lambda>so. add_operator so ex) (unary_operator ex dtn rettype e opt g)"

definition define_builtin_unary_operator_gen ::
  "(token \<Rightarrow> string) \<Rightarrow> token option \<Rightarrow> token list \<Rightarrow> token option
     \<Rightarrow> token list \<Rightarrow> exports \<Rightarrow> exports option" where
  "define_builtin_unary_operator_gen dtn rettype optypes e gens =
     for_each (\<lambda>opt. for_each (\<lambda>g. unary_operator_entry dtn rettype e opt g) gens) optypes"

subsection \<open>The registrations of the module body\<close>

text \<open>One constructor per registration function, with the arguments of the call.\<close>

datatype call =
    Gentype "token option" string "(token option \<times> string) list"
  | Mat "token option" string "(token option \<times> string) list"
  | Relvec relref string "(relref \<times> string) list"
  | Plain token string "(token \<times> string) list"
  | BinOp "token option" "token list" "token option" "token option" "token list"
  | UnOp "token option" "token list" "token option" "token list"

fun exec_call :: "(token \<Rightarrow> string) \<Rightarrow> call \<Rightarrow> exports \<Rightarrow> exports option" where
  "exec_call dtn (Gentype r n ps) = define_builtin_gentype_function r n ps"
| "exec_call dtn (Mat r n ps) = define_builtin_mat_function r n ps"
| "exec_call dtn (Relvec r n ps) = define_builtin_relvec_function r n ps"
| "exec_call dtn (Plain r n ps) = define_builtin_function (Tok r) n (map (\<lambda>(t, x). (Tok t, x)) ps)"
| "exec_call dtn (BinOp r ops l rh gens) = define_builtin_bin_operator_gen dtn r ops l rh gens"
| "exec_call dtn (UnOp r ops e gens) = define_builtin_unary_operator_gen dtn r ops e gens"

text \<open>The function registrations, in the order of the module body.\<close>

definition function_calls :: "call list" where
  "function_calls =
     [
      Gentype None ''radians'' [(None, ''degrees'')],
      Gentype None ''degrees'' [(None, ''radians'')],
      Gentype None ''sin'' [(None, ''angle'')],
      Gentype None ''cos'' [(None, ''angle'')],
      Gentype None ''tan'' [(None, ''angle'')],
      Gentype None ''asin'' [(None, ''x'')],
      Gentype None ''acos'' [(None, ''x'')],
      Gentype None ''atan'' [(None, ''y''), (None, ''x'')],
      Gentype None ''atan'' [(None, ''y_over_x'')],
      Gentype None ''pow'' [(None, ''x''), (None, ''y'')],
      Gentype None ''exp'' [(None, ''x'')],
      Gentype None ''log'' [(None, ''x'')],
      Gentype None ''exp2'' [(None, ''x'')],
      Gentype None ''log2'' [(None, ''x'')],
      Gentype None ''sqrt'' [(None, ''x'')],
      Gentype None ''inversesqrt'' [(None, ''x'')],
      Gentype None ''abs'' [(None, ''x'')],
      Gentype None ''sign'' [(None, ''x'')],
      Gentype None ''floor'' [(None, ''x'')],
      Gentype None ''ceil'' [(None, ''x'')],
      Gentype None ''fract'' [(None, ''x'')],
      Gentype None ''mod'' [(None, ''x''), (None, ''y'')],
      Gentype None ''min'' [(None, ''x''), (None, ''y'')],
      Gentype None ''min'' [(None, ''x''), (Some T_FLOAT, ''y'')],
      Gentype None ''max'' [(None, ''x''), (None, ''y'')],
      Gentype None ''max'' [(None, ''x''), (Some T_FLOAT, ''y'')],
      Gentype None ''clamp'' [(None, ''x''), (None, ''minVal''), (None, ''maxVal'')],
      Gentype None ''clamp'' [(None, ''x''), (Some T_FLOAT, ''minVal''), (Some T_FLOAT, ''maxVal'')],
      Gentype None ''mix'' [(None, ''x''), (None, ''y''), (None, ''a'')],
      Gentype None ''mix'' [(None, ''x''), (None, ''y''), (Some T_FLOAT, ''a'')],
      Gentype None ''step'' [(None, ''edge''), (None, ''x'')],
      Gentype None ''step'' [(Some T_FLOAT, ''edge''), (None, ''x'')],
      Gentype None ''smoothstep'' [(None, ''edge0''), (None, ''edge1''), (None, ''x'')],
      Gentype None ''smoothstep'' [(Some T_FLOAT, ''edge0''), (Some T_FLOAT, ''edge1''), (None, ''x'')],
      Gentype (Some T_FLOAT) ''length'' [(None, ''x'')],
      Gentype (Some T_FLOAT) ''distance'' [(None, ''p0''), (None, ''p1'')],
      Gentype (Some T_FLOAT) ''dot'' [(None, ''x''), (None, ''y'')],
      Plain T_VEC3 ''cross'' [(T_VEC3, ''x''), (T_VEC3, ''y'')],
      Gentype None ''normalize'' [(None, ''x'')],
      Gentype None ''faceforward'' [(None, ''N''), (None, ''I''), (None, ''Nref'')],
      Gentype None ''reflect'' [(None, ''I''), (None, ''N'')],
      Gentype None ''refract'' [(None, ''I''), (None, ''N''), (Some T_FLOAT, ''eta'')],
      Mat None ''matrixCompMult'' [(None, ''x''), (None, ''y'')],
      Relvec (Fam ''bvec'') ''lessThan'' [(Fam ''vec'', ''x''), (Fam ''vec'', ''y'')],
      Relvec (Fam ''bvec'') ''lessThan'' [(Fam ''ivec'', ''x''), (Fam ''ivec'', ''y'')],
      Relvec (Fam ''bvec'') ''lessThanEqual'' [(Fam ''vec'', ''x''), (Fam ''vec'', ''y'')],
      Relvec (Fam ''bvec'') ''lessThanEqual'' [(Fam ''ivec'', ''x''), (Fam ''ivec'', ''y'')],
      Relvec (Fam ''bvec'') ''greaterThan'' [(Fam ''vec'', ''x''), (Fam ''vec'', ''y'')],
      Relvec (Fam ''bvec'') ''greaterThan'' [(Fam ''ivec'', ''x''), (Fam ''ivec'', ''y'')],
      Relvec (Fam ''bvec'') ''greaterThanEqual'' [(Fam ''vec'', ''x''), (Fam ''vec'', ''y'')],
      Relvec (Fam ''bvec'') ''greaterThanEqual'' [(Fam ''ivec'', ''x''), (Fam ''ivec'', ''y'')],
      Relvec (Fam ''bvec'') ''equal'' [(Fam ''vec'', ''x''), (Fam ''vec'', ''y'')],
      Relvec (Fam ''bvec'') ''equal'' [(Fam ''ivec'', ''x''), (Fam ''ivec'', ''y'')],
      Relvec (Fam ''bvec'') ''notEqual'' [(Fam ''vec'', ''x''), (Fam ''vec'', ''y'')],
      Relvec (Fam ''bvec'') ''notEqual'' [(Fam ''ivec'', ''x''), (Fam ''ivec'', ''y'')],
      Relvec (Fam ''bvec'') ''notEqual'' [(Fam ''bvec'', ''x''), (Fam ''bvec'', ''y'')],
      Relvec (RTok T_BOOL) ''any'' [(Fam ''bvec'', ''x'')],
      Relvec (RTok T_BOOL) ''all'' [(Fam ''bvec'', ''x'')],
      Relvec (Fam ''bvec'') ''not'' [(Fam ''bvec'', ''x'')],
      Plain T_VEC4 ''texture2D'' [(T_SAMPLER2D, ''sampler''), (T_VEC2, ''coord'')],
      Plain T_VEC4 ''texture2D'' [(T_SAMPLER2D, ''sampler''), (T_VEC2, ''coord''), (T_FLOAT, ''bias'')],
      Plain T_VEC4 ''texture2DProj'' [(T_SAMPLER2D, ''sampler''), (T_VEC3, ''coord'')],
      Plain T_VEC4 ''texture2DProj'' [(T_SAMPLER2D, ''sampler''), (T_VEC3, ''coord''), (T_FLOAT, ''bias'')],
      Plain T_VEC4 ''texture2DProj'' [(T_SAMPLER2D, ''sampler''), (T_VEC4, ''coord'')],
      Plain T_VEC4 ''texture2DProj'' [(T_SAMPLER2D, ''sampler''), (T_VEC4, ''coord''), (T_FLOAT, ''bias'')],
      Plain T_VEC4 ''texture2DLod'' [(T_SAMPLER2D, ''sampler''), (T_VEC2, ''coord''), (T_FLOAT, ''lod'')],
      Plain T_VEC4 ''texture2DProjLod'' [(T_SAMPLER2D, ''sampler''), (T_VEC3, ''coord''), (T_FLOAT, ''lod'')],
      Plain T_VEC4 ''texture2DProjLod'' [(T_SAMPLER2D, ''sampler''), (T_VEC4, ''coord''), (T_FLOAT, ''lod'')],
      Plain T_VEC4 ''textureCube'' [(T_SAMPLERCUBE, ''sampler''), (T_VEC3, ''coord'')],
      Plain T_VEC4 ''textureCube'' [(T_SAMPLERCUBE, ''sampler''), (T_VEC3, ''coord''), (T_FLOAT, ''bias'')],
      Plain T_VEC4 ''textureCubeLod'' [(T_SAMPLERCUBE, ''sampler''), (T_VEC3, ''coord''), (T_FLOAT, ''lod'')]]"

text \<open>The operator registrations, in the order of the module body.\<close>

definition operator_calls :: "call list" where
  "operator_calls =
     [
      BinOp None [T_PLUS, T_DASH, T_STAR, T_SLASH] None None
       [T_INT, T_FLOAT, T_VEC2, T_VEC3, T_VEC4, T_MAT2, T_MAT3, T_MAT4, T_IVEC2, T_IVEC3, T_IVEC4],
      BinOp None [T_PLUS, T_DASH, T_STAR, T_SLASH] (Some T_FLOAT) None
       [T_VEC2, T_VEC3, T_VEC4, T_MAT2, T_MAT3, T_MAT3],
      BinOp None [T_PLUS, T_DASH, T_STAR, T_SLASH] None (Some T_FLOAT)
       [T_VEC2, T_VEC3, T_VEC4, T_MAT2, T_MAT3, T_MAT3],
      BinOp None [T_PLUS, T_DASH, T_STAR, T_SLASH] (Some T_INT) None
       [T_IVEC2, T_IVEC3, T_IVEC4],
      BinOp None [T_PLUS, T_DASH, T_STAR, T_SLASH] None (Some T_INT)
       [T_IVEC2, T_IVEC3, T_IVEC4],
      BinOp None [T_STAR] (Some T_MAT2) None
       [T_VEC2],
      BinOp None [T_STAR] (Some T_MAT3) None
       [T_VEC3],
      BinOp None [T_STAR] (Some T_MAT4) None
       [T_VEC4],
      BinOp None [T_STAR] (Some T_VEC2) None
       [T_MAT2],
      BinOp None [T_STAR] (Some T_VEC3) None
       [T_MAT3],
      BinOp None [T_STAR] (Some T_VEC4) None
       [T_MAT4],
      BinOp (Some T_BOOL) [T_LEFT_ANGLE_OP, T_RIGHT_ANGLE, T_LE_OP, T_GE_OP] None None
       [T_FLOAT, T_INT],
      BinOp (Some T_BOOL) [T_EQ_OP, T_NE_OP] None None
       [T_INT, T_FLOAT, T_BOOL, T_VEC2, T_VEC3, T_VEC4, T_MAT2, T_MAT3, T_MAT4, T_IVEC2, T_IVEC3, T_IVEC4],
      BinOp None [T_AND_OP, T_OR_OP, T_XOR_OP] None None
       [T_BOOL],
      UnOp None [T_DASH, T_DEC_OP, T_INC_OP] None
       [T_INT, T_FLOAT, T_VEC2, T_VEC3, T_VEC4, T_MAT2, T_MAT3, T_MAT4, T_IVEC2, T_IVEC3, T_IVEC4],
      UnOp None [T_BANG] None
       [T_BOOL]]"

text \<open>
  Modelled from the spec: \<open>token_name\<close> of the tokenizer (the tokenizer is not part of the
  sources at hand). The spec writes an operator signature with the operator as it is
  spelled in the shading language, e.g. \<open>*(mat3,vec3)\<close>.
\<close>

definition token_name :: "token \<Rightarrow> string" where
  "token_name t =
     (case t of
        T_PLUS \<Rightarrow> ''+'' | T_DASH \<Rightarrow> ''-'' | T_STAR \<Rightarrow> ''*'' | T_SLASH \<Rightarrow> ''/''
      | T_LEFT_ANGLE_OP \<Rightarrow> ''<'' | T_RIGHT_ANGLE \<Rightarrow> ''>'' | T_LE_OP \<Rightarrow> ''<='' | T_GE_OP \<Rightarrow> ''>=''
      | T_EQ_OP \<Rightarrow> ''=='' | T_NE_OP \<Rightarrow> ''!=''
      | T_AND_OP \<Rightarrow> ''&&'' | T_OR_OP \<Rightarrow> ''||'' | T_XOR_OP \<Rightarrow> ''^^''
      | T_DEC_OP \<Rightarrow> ''--'' | T_INC_OP \<Rightarrow> ''++'' | T_BANG \<Rightarrow> ''!''
      | _ \<Rightarrow> js_str (Type_name t))"

text \<open>
  The catalogue after the module body has run: the types, then the functions, then the
  operators. \<open>None\<close> would mean that a registration threw.
\<close>

definition build_functions :: "exports \<Rightarrow> exports option" where
  "build_functions = for_each (exec_call token_name) function_calls"

definition build_operators :: "(token \<Rightarrow> string) \<Rightarrow> exports \<Rightarrow> exports option" where
  "build_operators dtn = for_each (exec_call dtn) operator_calls"

definition builtins :: "(token \<Rightarrow> string) \<Rightarrow> exports option" where
  "builtins dtn = Option.bind (build_functions Type_create_builtin) (build_operators dtn)"

section \<open>The document store (\<open>Store\<close>)\<close>

text \<open>The exception a read of a property of \<open>undefined\<close> or \<open>null\<close> throws.\<close>

datatype exn = TypeError

text \<open>
  A JavaScript value, as far as the store looks at it: a value that is a valid database key
  (a number, a date, a string, ...; \<open>'k\<close>, with the order the database gives its keys) or
  any other value (\<open>null\<close>, a boolean, an object, ...; \<open>'v\<close>).
\<close>

datatype ('k, 'v) jsval = Key 'k | Other 'v

text \<open>
  A document is an object: its properties by name. \<open>'id' in doc\<close> is \<open>''id'' \<in> dom doc\<close>, and
  reading a property that is absent gives \<open>undefined\<close>, here \<open>None\<close>.
\<close>

type_synonym ('k, 'v) doc = "string \<rightharpoonup> ('k, 'v) jsval"

text \<open>The key a property value stands for; \<open>undefined\<close> and the other values are no keys.\<close>

definition key_of :: "('k, 'v) jsval option \<Rightarrow> 'k option" where
  "key_of v = (case v of Some (Key k) \<Rightarrow> Some k | _ \<Rightarrow> None)"

text \<open>
  What the store does is a sequence of calls: to the callback \<open>cb(this, x)\<close> and to the object
  store of the database. How the database answers a request is not the store's doing; it
  is an input of the model.
\<close>

datatype ('k, 'v) action =
    Callback "('k, 'v) doc option"
  | Transaction string
  | StoreDelete "('k, 'v) jsval option"

datatype answer = Succeeds | Fails | Throws

text \<open>
  \<open>Store.prototype.delete\<close>. The test for a missing \<open>id\<close> calls the callback with \<open>null\<close> and
  does not return: the transaction is opened and \<open>store.delete(doc.id)\<close> is called all the
  same. Then the request succeeds (\<open>cb(this, doc)\<close>), fails (\<open>cb(this, null)\<close>), or the call
  itself throws and nothing more happens.
\<close>

definition Store_delete :: "('k, 'v) doc \<Rightarrow> answer \<Rightarrow> ('k, 'v) action list" where
  "Store_delete doc ans =
     (if ''id'' \<notin> dom doc then [Callback None] else [])
     @ [Transaction ''readwrite'', StoreDelete (doc ''id'')]
     @ (case ans of
          Succeeds \<Rightarrow> [Callback (Some doc)]
        | Fails \<Rightarrow> [Callback None]
        | Throws \<Rightarrow> [])"










text \<open>
  \<open>Store.prototype.last\<close> and \<open>Store.prototype.all\<close> open a cursor on the index
  \<open>modification_time\<close> in direction \<open>prev\<close>. The cursor request fires \<open>onsuccess\<close> with a
  cursor at a record, or with \<open>null\<close> at the end, or fires \<open>onerror\<close>; after
  \<open>res.continue()\<close> it fires again. The events are an input of the handlers.
\<close>

datatype 'a cursor_event = At 'a | End | Error

text \<open>
  \<open>last\<close>: the first event decides, the cursor is never continued. The result is the
  argument of the callback, \<open>None\<close> for \<open>null\<close>; no event, no callback.
\<close>

fun last_handler :: "'a cursor_event list \<Rightarrow> 'a option option" where
  "last_handler [] = None"
| "last_handler (At v # evs) = Some (Some v)"
| "last_handler (End # evs) = Some None"
| "last_handler (Error # evs) = Some None"

text \<open>
  \<open>all\<close>: a record is pushed on \<open>ret\<close> (here \<open>acc\<close>) and the cursor continued; at the end, or
  on an error, the callback gets \<open>ret\<close>.
\<close>

fun all_handler :: "'a cursor_event list \<Rightarrow> 'a list \<Rightarrow> 'a list option" where
  "all_handler [] acc = None"
| "all_handler (At v # evs) acc = all_handler evs (acc @ [v])"
| "all_handler (End # evs) acc = Some acc"
| "all_handler (Error # evs) acc = Some acc"

text \<open>
  The database side of the cursor, after the Indexed Database API: the object store
  \<open>documents\<close> has the key path \<open>id\<close>; the index \<open>modification_time\<close> holds the records whose
  \<open>modification_time\<close> is a valid key, ordered by that key and then by the primary key; a
  cursor in direction \<open>prev\<close> walks the index from its last record to its first and then
  reports the end.

  The entries of an index: the index key and the primary key of a record, with the record.
\<close>

definition index_entries ::
  "string \<Rightarrow> ('k::linorder, 'v) doc list \<Rightarrow> (('k \<times> 'k) \<times> ('k, 'v) doc) list" where
  "index_entries path db =
     concat (map (\<lambda>d. case (key_of (d path), key_of (d ''id'')) of
                          (Some k, Some i) \<Rightarrow> [((k, i), d)]
                        | _ \<Rightarrow> []) db)"

definition index_records :: "string \<Rightarrow> ('k::linorder, 'v) doc list \<Rightarrow> ('k, 'v) doc list" where
  "index_records path db = map snd (sort_key fst (index_entries path db))"

definition open_cursor_prev ::
  "string \<Rightarrow> ('k::linorder, 'v) doc list \<Rightarrow> ('k, 'v) doc cursor_event list" where
  "open_cursor_prev path db = map At (rev (index_records path db)) @ [End]"

definition Store_last :: "('k::linorder, 'v) doc list \<Rightarrow> ('k, 'v) doc option option" where
  "Store_last db = last_handler (open_cursor_prev ''modification_time'' db)"

definition Store_all :: "('k::linorder, 'v) doc list \<Rightarrow> ('k, 'v) doc list option" where
  "Store_all db = all_handler (open_cursor_prev ''modification_time'' db) []"

section \<open>Locating JavaScript runtime errors (\<open>App\<close>)\<close>

text \<open>\<open>s.split('\n')\<close>: the pieces between the newlines; one more piece than newlines.\<close>

fun split_lines :: "string \<Rightarrow> string list" where
  "split_lines [] = [[]]"
| "split_lines (c # cs) =
     (if c = CHR 0x0A then [] # split_lines cs
      else (case split_lines cs of [] \<Rightarrow> [[c]] | l # ls \<Rightarrow> (c # l) # ls))"

definition is_digit :: "char \<Rightarrow> bool" where
  "is_digit c \<longleftrightarrow> c \<in> set ''0123456789''"

text \<open>
  \<open>line.match(re)\<close> for a regular expression of the form \<open>pre([0-9]+):([0-9]+)post$\<close>, with
  literal texts \<open>pre\<close> and \<open>post\<close>: the two groups if the line ends that way, \<open>None\<close> for
  \<open>null\<close>. The line is read from its end: \<open>post\<close>, the digits of the second group, the
  colon, the digits of the first group, \<open>pre\<close>.
\<close>

definition match_loc :: "string \<Rightarrow> string \<Rightarrow> string \<Rightarrow> (string \<times> string) option" where
  "match_loc pre post line =
     (let r = rev line
      in if take (length post) r \<noteq> rev post then None
         else (let r1 = drop (length post) r;
                   d2 = takeWhile is_digit r1;
                   r2 = dropWhile is_digit r1
               in if d2 = [] then None
                  else (case r2 of
                          [] \<Rightarrow> None
                        | c # r3 \<Rightarrow>
                           if c \<noteq> CHR '':'' then None
                           else (let d1 = takeWhile is_digit r3;
                                     r4 = dropWhile is_digit r3
                                 in if d1 = [] \<or> take (length pre) r4 \<noteq> rev pre then None
                                    else Some (rev d1, rev d2)))))"

text \<open>The two expressions of the source: Chrome's and Firefox's.\<close>

definition anon :: "string \<Rightarrow> (string \<times> string) option" where
  "anon = match_loc '', <anonymous>:'' '')''"

definition func :: "string \<Rightarrow> (string \<times> string) option" where
  "func = match_loc ''> Function:'' ''''"

text \<open>
  A JavaScript number, as far as a location needs it: an integer, which a number holds
  exactly up to 2 to the 53, or a number beyond that, which is rounded and which the model
  does not compute.
\<close>

datatype jsnum = Num int | Rounded

text \<open>\<open>parseInt\<close> of a string of decimal digits.\<close>

definition digit_val :: "char \<Rightarrow> nat" where
  "digit_val c = of_char c - of_char CHR ''0''"

definition parseInt :: "string \<Rightarrow> jsnum" where
  "parseInt ds =
     (let n = foldl (\<lambda>n c. 10 * n + digit_val c) 0 ds
      in if n \<le> 2 ^ 53 then Num (int n) else Rounded)"

text \<open>\<open>x - 1\<close>, for the number \<open>x\<close> that \<open>parseInt\<close> gave.\<close>

definition minus_one :: "jsnum \<Rightarrow> jsnum" where
  "minus_one x = (case x of Num n \<Rightarrow> Num (n - 1) | Rounded \<Rightarrow> Rounded)"

record loc =
  line :: jsnum
  column :: jsnum

record js_error =
  message :: string
  stack :: string
  originalStack :: "string option"

text \<open>
  \<open>App.prototype._extract_js_error_loc\<close>, as it stands in the later text of the
  application: every line of the stack is tried, Chrome's expression first.
\<close>

fun extract_lines :: "string list \<Rightarrow> loc option" where
  "extract_lines [] = None"
| "extract_lines (l # ls) =
     (case anon l of
        Some (m1, m2) \<Rightarrow> Some \<lparr> line = minus_one (parseInt m1), column = parseInt m2 \<rparr>
      | None \<Rightarrow>
         (case func l of
            Some (m1, m2) \<Rightarrow> Some \<lparr> line = parseInt m1, column = parseInt m2 \<rparr>
          | None \<Rightarrow> extract_lines ls))"

text \<open>\<open>e.originalStack || e.stack\<close>: the original stack unless it is absent or empty.\<close>

definition stack_of :: "js_error \<Rightarrow> string" where
  "stack_of e = (case originalStack e of None \<Rightarrow> stack e | Some s \<Rightarrow> if s = [] then stack e else s)"

definition extract_js_error_loc :: "js_error \<Rightarrow> loc option" where
  "extract_js_error_loc e = extract_lines (split_lines (stack_of e))"

text \<open>What \<open>_handle_js_error\<close> does with the error.\<close>

datatype report = Runtime_error string "loc option" | Console_error string

definition handle_js_error :: "js_error \<Rightarrow> report" where
  "handle_js_error e =
     (case extract_js_error_loc e of
        Some l \<Rightarrow> Runtime_error (message e) (Some l)
      | None \<Rightarrow> Console_error (stack e))"

text \<open>
  \<open>App.prototype._extract_js_error_loc\<close>, as it stands in the earlier text of the
  application. Chrome's expression is tried on the second line only (\<open>lines[1]\<close>, which is
  \<open>undefined\<close> for a stack of one line: \<open>.match\<close> throws), Firefox's on the first line only.
  The second test is \<open>if (func)\<close>, the expression itself, which is always true: the groups
  of \<open>m\<close> are read whether it matched or not, and reading \<open>m[1]\<close> of \<open>null\<close> throws. The
  final \<open>return null\<close> is never reached.
\<close>

definition extract_js_error_loc_old :: "js_error \<Rightarrow> exn + loc option" where
  "extract_js_error_loc_old e =
     (case split_lines (stack e) of
        l0 # l1 # ls \<Rightarrow>
          (case anon l1 of
             Some (m1, m2) \<Rightarrow> Inr (Some \<lparr> line = minus_one (parseInt m1), column = parseInt m2 \<rparr>)
           | None \<Rightarrow>
              (case func l0 of
                 Some (m1, m2) \<Rightarrow> Inr (Some \<lparr> line = parseInt m1, column = parseInt m2 \<rparr>)
               | None \<Rightarrow> Inl TypeError))
      | _ \<Rightarrow> Inl TypeError)"

text \<open>The earlier \<open>_handle_js_error\<close> reports whatever location it gets.\<close>

definition handle_js_error_old :: "js_error \<Rightarrow> exn + report" where
  "handle_js_error_old e =
     (case extract_js_error_loc_old e of
        Inl x \<Rightarrow> Inl x
      | Inr l \<Rightarrow> Inr (Runtime_error (message e) l))"

text \<open>A line that ends in \<open>pre\<close>, digits, a colon, digits and \<open>post\<close>: the shape the expression
  \<open>pre([0-9]+):([0-9]+)post$\<close> describes.\<close>

definition has_shape :: "string \<Rightarrow> string \<Rightarrow> string \<Rightarrow> bool" where
  "has_shape pre post l \<longleftrightarrow>
     (\<exists>u d1 d2. l = u @ pre @ d1 @ '':'' @ d2 @ post \<and> d1 \<noteq> [] \<and> d2 \<noteq> [] \<and>
        list_all is_digit d1 \<and> list_all is_digit d2)"

section \<open>Expected entries and auxiliary notions\<close>

text \<open>A state whose \<open>TypeMap\<close> is the one \<open>Type._create_builtin\<close> builds.\<close>

definition builtin_types :: "exports \<Rightarrow> bool" where
  "builtin_types ex \<longleftrightarrow> TypeMap ex = TypeMap Type_create_builtin"

text \<open>The prototype of a builtin function with return type token \<open>r\<close>, name \<open>n\<close> and
  parameters \<open>ps\<close> (type token, name), each type being the registered builtin declaration.\<close>

definition proto :: "token \<Rightarrow> string \<Rightarrow> (token \<times> string) list \<Rightarrow> FunctionProto" where
  "proto r n ps =
     \<lparr> fret = builtin_decl r, fname = n,
       parameters = map (\<lambda>(t, x). \<lparr> ptype = builtin_decl t, pname = x \<rparr>) ps \<rparr>"

text \<open>A type argument that stands for the builtin declaration of token \<open>t\<close>.\<close>

fun denotes :: "typeref \<Rightarrow> token \<Rightarrow> bool" where
  "denotes (Tok t') t \<longleftrightarrow> t' = t"
| "denotes (Decl d) t \<longleftrightarrow> d = builtin_decl t"
| "denotes Undefined t \<longleftrightarrow> False"

text \<open>A generic slot (\<open>None\<close>) takes the concrete type \<open>g\<close>; a fixed slot keeps its type.\<close>

definition fill :: "token \<Rightarrow> token option \<Rightarrow> token" where
  "fill g t = (case t of None \<Rightarrow> g | Some t' \<Rightarrow> t')"

text \<open>The instance of a generic registration at the concrete type \<open>g\<close>: \<open>g\<close> in every generic
  parameter slot, and in the return type when it is generic.\<close>

definition gen_instance ::
  "token \<Rightarrow> token option \<Rightarrow> string \<Rightarrow> (token option \<times> string) list \<Rightarrow> FunctionProto" where
  "gen_instance g r n ps = proto (fill g r) n (map (\<lambda>(t, x). (fill g t, x)) ps)"

text \<open>A slot that names a builtin type, or is generic.\<close>

definition slot_ok :: "token option \<Rightarrow> bool" where
  "slot_ok t = (case t of None \<Rightarrow> True | Some t' \<Rightarrow> t' \<in> set btypetoks)"

text \<open>The three relational-vector families, by arity index 0, 1, 2.\<close>

definition family :: "string \<Rightarrow> token list" where
  "family s =
     (if s = ''bvec'' then [T_BVEC2, T_BVEC3, T_BVEC4]
      else if s = ''vec'' then [T_VEC2, T_VEC3, T_VEC4]
      else if s = ''ivec'' then [T_IVEC2, T_IVEC3, T_IVEC4]
      else [])"

text \<open>The member of a marker's own family at index \<open>i\<close>; a token stands for itself.\<close>

fun family_member :: "nat \<Rightarrow> relref \<Rightarrow> token" where
  "family_member i (RTok t) = t"
| "family_member i (Fam s) = family s ! i"

text \<open>A marker of one of the three families, or a builtin type token.\<close>

fun relref_ok :: "relref \<Rightarrow> bool" where
  "relref_ok (RTok t) \<longleftrightarrow> t \<in> set btypetoks"
| "relref_ok (Fam s) \<longleftrightarrow> s \<in> {''bvec'', ''vec'', ''ivec''}"

text \<open>The instance of a relational-vector registration at index \<open>i\<close>: every family marker
  replaced by the member of its own family at that index.\<close>

definition relvec_instance ::
  "nat \<Rightarrow> relref \<Rightarrow> string \<Rightarrow> (relref \<times> string) list \<Rightarrow> FunctionProto" where
  "relvec_instance i r n ps = proto (family_member i r) n (map (\<lambda>(p, x). (family_member i p, x)) ps)"

text \<open>The prototypes a registration hands to \<open>define_builtin_function\<close>, in order.\<close>

fun call_protos :: "call \<Rightarrow> FunctionProto list" where
  "call_protos (Gentype r n ps) = map (\<lambda>g. gen_instance g r n ps) gentype_toks"
| "call_protos (Mat r n ps) = map (\<lambda>g. gen_instance g r n ps) mat_toks"
| "call_protos (Relvec r n ps) = map (\<lambda>i. relvec_instance i r n ps) [0, 1, 2]"
| "call_protos (Plain r n ps) = [proto r n ps]"
| "call_protos (BinOp r ops l rh gens) = []"
| "call_protos (UnOp r ops e gens) = []"

text \<open>A function registration all of whose types are builtin types.\<close>

fun function_call_ok :: "call \<Rightarrow> bool" where
  "function_call_ok (Gentype r n ps) \<longleftrightarrow> slot_ok r \<and> list_all (\<lambda>(t, x). slot_ok t) ps"
| "function_call_ok (Mat r n ps) \<longleftrightarrow> slot_ok r \<and> list_all (\<lambda>(t, x). slot_ok t) ps"
| "function_call_ok (Relvec r n ps) \<longleftrightarrow> relref_ok r \<and> list_all (\<lambda>(p, x). relref_ok p) ps"
| "function_call_ok (Plain r n ps) \<longleftrightarrow> r \<in> set btypetoks \<and> list_all (\<lambda>(t, x). t \<in> set btypetoks) ps"
| "function_call_ok (BinOp r ops l rh gens) \<longleftrightarrow> False"
| "function_call_ok (UnOp r ops e gens) \<longleftrightarrow> False"

text \<open>The function name of a registration.\<close>

fun call_name :: "call \<Rightarrow> string" where
  "call_name (Gentype r n ps) = n"
| "call_name (Mat r n ps) = n"
| "call_name (Relvec r n ps) = n"
| "call_name (Plain r n ps) = n"
| "call_name (BinOp r ops l rh gens) = []"
| "call_name (UnOp r ops e gens) = []"

text \<open>Two prototypes with one signature are the same prototype.\<close>

definition agree :: "FunctionProto \<Rightarrow> FunctionProto \<Rightarrow> bool" where
  "agree f f' = (if signature f = signature f' then f = f' else True)"

text \<open>Registrations of one name never give two different prototypes one signature.\<close>

definition consistent :: "call list \<Rightarrow> bool" where
  "consistent cs =
     list_all (\<lambda>c1. list_all (\<lambda>c2.
        if call_name c1 = call_name c2
        then list_all (\<lambda>f. list_all (agree f) (call_protos c2)) (call_protos c1)
        else True) cs) cs"

text \<open>The operators a call builds, in the order of its two loops.\<close>

definition bin_operators ::
  "exports \<Rightarrow> (token \<Rightarrow> string) \<Rightarrow> token option \<Rightarrow> token list \<Rightarrow> token option \<Rightarrow> token option
     \<Rightarrow> token list \<Rightarrow> (string \<times> Operator) option list" where
  "bin_operators ex dtn rt optypes l r gens =
     concat (map (\<lambda>opt. map (\<lambda>g. bin_operator ex dtn rt l r opt g) gens) optypes)"

text \<open>The same for a unary registration.\<close>

definition unary_operators ::
  "exports \<Rightarrow> (token \<Rightarrow> string) \<Rightarrow> token option \<Rightarrow> token list \<Rightarrow> token option
     \<Rightarrow> token list \<Rightarrow> (string \<times> Operator) option list" where
  "unary_operators ex dtn rt optypes e gens =
     concat (map (\<lambda>opt. map (\<lambda>g. unary_operator ex dtn rt e opt g) gens) optypes)"

text \<open>The signature and \<open>Operator\<close> of a binary registration at operator \<open>opt\<close> and generated
  type \<open>g\<close>, over the builtin types.\<close>

definition bin_operator_at ::
  "(token \<Rightarrow> string) \<Rightarrow> token option \<Rightarrow> token option \<Rightarrow> token option \<Rightarrow> token \<Rightarrow> token
     \<Rightarrow> string \<times> Operator" where
  "bin_operator_at dtn rt l r opt g =
     (dtn opt @ ''('' @ js_str (Type_name (fill g l)) @ '','' @ js_str (Type_name (fill g r)) @ '')'',
      \<lparr> op = opt, ret = new_Type (fill g rt), lhs = Some (new_Type (fill g l)),
        rhs = Some (new_Type (fill g r)), expr = None \<rparr>)"

text \<open>The same for a unary registration.\<close>

definition unary_operator_at ::
  "(token \<Rightarrow> string) \<Rightarrow> token option \<Rightarrow> token option \<Rightarrow> token \<Rightarrow> token \<Rightarrow> string \<times> Operator" where
  "unary_operator_at dtn rt e opt g =
     (dtn opt @ ''('' @ js_str (Type_name (fill g e)) @ '')'',
      \<lparr> op = opt, ret = new_Type (fill g rt), lhs = None, rhs = None,
        expr = Some (new_Type (fill g e)) \<rparr>)"

text \<open>The operators a registration stores, in order, over the builtin types.\<close>

fun call_operators :: "(token \<Rightarrow> string) \<Rightarrow> call \<Rightarrow> (string \<times> Operator) list" where
  "call_operators dtn (BinOp rt ops l r gens) =
     concat (map (\<lambda>opt. map (\<lambda>g. bin_operator_at dtn rt l r opt g) gens) ops)"
| "call_operators dtn (UnOp rt ops e gens) =
     concat (map (\<lambda>opt. map (\<lambda>g. unary_operator_at dtn rt e opt g) gens) ops)"
| "call_operators dtn c = []"

text \<open>An operator registration all of whose types are builtin types.\<close>

fun operator_call_ok :: "call \<Rightarrow> bool" where
  "operator_call_ok (BinOp rt ops l r gens) \<longleftrightarrow>
     slot_ok rt \<and> slot_ok l \<and> slot_ok r \<and> list_all (\<lambda>g. g \<in> set btypetoks) gens"
| "operator_call_ok (UnOp rt ops e gens) \<longleftrightarrow>
     slot_ok rt \<and> slot_ok e \<and> list_all (\<lambda>g. g \<in> set btypetoks) gens"
| "operator_call_ok c \<longleftrightarrow> False"

text \<open>All prototypes and all operators of the module body, in order.\<close>

definition all_protos :: "FunctionProto list" where
  "all_protos = concat (map call_protos function_calls)"

definition all_operators :: "(token \<Rightarrow> string) \<Rightarrow> (string \<times> Operator) list" where
  "all_operators dtn = concat (map (call_operators dtn) operator_calls)"

text \<open>\<open>Functions\<close> and \<open>FunctionMap\<close> hold the same prototypes, one per signature.\<close>

definition fn_tables_ok :: "exports \<Rightarrow> bool" where
  "fn_tables_ok ex \<longleftrightarrow>
     distinct (map signature (Functions ex)) \<and>
     FunctionMap ex = map_of (map (\<lambda>f. (signature f, f)) (Functions ex))"

text \<open>The tables once the function registrations have run.\<close>

definition function_tables :: exports where
  "function_tables = fold register_function all_protos Type_create_builtin"

text \<open>A slot that is generic or fixed to one of the four generic types.\<close>

definition is_gentype_slot :: "token option \<Rightarrow> bool" where
  "is_gentype_slot t = (case t of None \<Rightarrow> True | Some t' \<Rightarrow> t' \<in> set gentype_toks)"

text \<open>For every generic registration: its four instances have four signatures, and every
  registration of the same name is a generic one over generic slots.\<close>

definition gentype_closed :: "call list \<Rightarrow> bool" where
  "gentype_closed cs =
     list_all (\<lambda>c. case c of
         Gentype r n ps \<Rightarrow>
           distinct (map (\<lambda>g. signature (gen_instance g r n ps)) gentype_toks) \<and>
           list_all (\<lambda>c'. if call_name c' = n
                          then (case c' of
                                  Gentype r' n' ps' \<Rightarrow> list_all (\<lambda>(t, x). is_gentype_slot t) ps'
                                | _ \<Rightarrow> False)
                          else True) cs
       | _ \<Rightarrow> True) cs"

text \<open>For every relational-vector registration: its three instances have three signatures,
  and every registration of the same name is a relational-vector one.\<close>

definition relvec_closed :: "call list \<Rightarrow> bool" where
  "relvec_closed cs =
     list_all (\<lambda>c. case c of
         Relvec r n ps \<Rightarrow>
           distinct (map (\<lambda>i. signature (relvec_instance i r n ps)) [0, 1, 2]) \<and>
           list_all (\<lambda>c'. if call_name c' = n
                          then (case c' of Relvec r' n' ps' \<Rightarrow> True | _ \<Rightarrow> False)
                          else True) cs
       | _ \<Rightarrow> True) cs"

text \<open>The relational and the equality operator tokens.\<close>

definition rel_eq_ops :: "token list" where
  "rel_eq_ops = [T_LEFT_ANGLE_OP, T_RIGHT_ANGLE, T_LE_OP, T_GE_OP, T_EQ_OP, T_NE_OP]"

text \<open>The \<open>*\<close> operator with operand types \<open>l\<close> and \<open>r\<close> and return type \<open>t\<close>.\<close>

definition star_entry :: "token \<Rightarrow> token \<Rightarrow> token \<Rightarrow> Operator" where
  "star_entry l r t =
     \<lparr> op = T_STAR, ret = new_Type t, lhs = Some (new_Type l), rhs = Some (new_Type r),
       expr = None \<rparr>"

section \<open>The registration functions over the builtin types\<close>

lemma TypeMap_create_builtin:
  "TypeMap Type_create_builtin t = (if t \<in> set btypetoks then Some (builtin_decl t) else None)"
  by (simp add: Type_create_builtin_def btypetoks_def)

lemma tables_create_builtin:
  "Functions Type_create_builtin = []" "FunctionMap Type_create_builtin = Map.empty"
  "Operators Type_create_builtin = []" "OperatorMap Type_create_builtin = Map.empty"
  by (simp_all add: Type_create_builtin_def btypetoks_def)

lemma resolve_denotes:
  "builtin_types ex \<Longrightarrow> denotes r t \<Longrightarrow> t \<in> set btypetoks \<Longrightarrow> resolve ex r = Some (builtin_decl t)"
  by (cases r) (simp_all add: resolve_def builtin_types_def TypeMap_create_builtin)

lemma lookup_denotes:
  "builtin_types ex \<Longrightarrow> t \<in> set btypetoks \<Longrightarrow> denotes (lookup ex t) t"
  by (simp add: lookup_def builtin_types_def TypeMap_create_builtin)

lemma those_params:
  "builtin_types ex \<Longrightarrow> list_all2 (\<lambda>(r, x) (t, y). denotes r t \<and> x = y \<and> t \<in> set btypetoks) rs ps \<Longrightarrow>
   those (map (\<lambda>(p, n). map_option (\<lambda>d. \<lparr> ptype = d, pname = n \<rparr>) (resolve ex p)) rs)
     = Some (map (\<lambda>(t, x). \<lparr> ptype = builtin_decl t, pname = x \<rparr>) ps)"
proof (induction rs arbitrary: ps)
  case Nil
  then show ?case by simp
next
  case (Cons a rs)
  obtain r x where a: "a = (r, x)" by (cases a)
  from Cons.prems(2) obtain b ps' where ps: "ps = b # ps'" by (cases ps) auto
  obtain t y where b: "b = (t, y)" by (cases b)
  from Cons.prems(2) have hd: "denotes r t" "x = y" "t \<in> set btypetoks"
    and tl: "list_all2 (\<lambda>(r, x) (t, y). denotes r t \<and> x = y \<and> t \<in> set btypetoks) rs ps'"
    by (simp_all add: a b ps)
  from Cons.IH [OF Cons.prems(1) tl] resolve_denotes [OF Cons.prems(1) hd(1) hd(3)] hd(2)
  show ?case by (simp add: a b ps)
qed

lemma function_header_proto:
  assumes "builtin_types ex" "denotes r t" "t \<in> set btypetoks"
    and "list_all2 (\<lambda>(r, x) (t, y). denotes r t \<and> x = y \<and> t \<in> set btypetoks) rs ps"
  shows "function_header ex r n rs = Some (proto t n ps)"
  using resolve_denotes [OF assms(1-3)] those_params [OF assms(1) assms(4)]
  by (simp add: function_header_def proto_def)

lemma register_function_frame [simp]:
  "TypeMap (register_function f ex) = TypeMap ex"
  "Types (register_function f ex) = Types ex"
  "Operators (register_function f ex) = Operators ex"
  "OperatorMap (register_function f ex) = OperatorMap ex"
  by (simp_all add: register_function_def Let_def)

lemma builtin_types_register [simp]:
  "builtin_types (register_function f ex) = builtin_types ex"
  by (simp add: builtin_types_def)

lemma builtin_types_fold_register [simp]:
  "builtin_types (fold register_function fs ex) = builtin_types ex"
  by (induction fs arbitrary: ex) simp_all

lemma define_builtin_function_proto:
  assumes "builtin_types ex" "denotes r t" "t \<in> set btypetoks"
    and "list_all2 (\<lambda>(r, x) (t, y). denotes r t \<and> x = y \<and> t \<in> set btypetoks) rs ps"
  shows "define_builtin_function r n rs ex = Some (register_function (proto t n ps) ex)"
  using function_header_proto [OF assms] by (simp add: define_builtin_function_def)

lemma for_each_fold:
  assumes "\<And>x s. x \<in> set xs \<Longrightarrow> P s \<Longrightarrow> body x s = Some (step x s)"
    and "\<And>x s. P s \<Longrightarrow> P (step x s)" and "P s"
  shows "for_each body xs s = Some (fold step xs s)"
  using assms
proof (induction xs arbitrary: s)
  case Nil
  then show ?case by simp
next
  case (Cons x xs)
  have "body x s = Some (step x s)" using Cons.prems by simp
  moreover have "for_each body xs (step x s) = Some (fold step xs (step x s))"
    using Cons.prems by (intro Cons.IH) auto
  ultimately show ?case by simp
qed

lemma gen_params:
  assumes "builtin_types ex" "g \<in> set btypetoks" "list_all (\<lambda>(t, x). slot_ok t) ps"
  shows "list_all2 (\<lambda>(r, x) (t, y). denotes r t \<and> x = y \<and> t \<in> set btypetoks)
           (map (\<lambda>(item, n). (case item of None \<Rightarrow> lookup ex g | Some t \<Rightarrow> lookup ex t, n)) ps)
           (map (\<lambda>(t, x). (fill g t, x)) ps)"
  using assms(3)
proof (induction ps)
  case Nil
  then show ?case by simp
next
  case (Cons a ps)
  obtain t x where a: "a = (t, x)" by (cases a)
  show ?case using Cons lookup_denotes [OF assms(1)] assms(2)
    by (cases t) (simp_all add: a fill_def slot_ok_def)
qed

lemma define_builtin_function_gen_fold:
  assumes ex: "builtin_types ex" and gs: "set gentypes \<subseteq> set btypetoks"
    and r: "slot_ok r" and ps: "list_all (\<lambda>(t, x). slot_ok t) ps"
  shows "define_builtin_function_gen gentypes r n ps ex =
           Some (fold register_function (map (\<lambda>g. gen_instance g r n ps) gentypes) ex)"
proof -
  have body: "define_builtin_function
                (case map_option (lookup ex) r of None \<Rightarrow> lookup s g | Some r' \<Rightarrow> r') n
                (map (\<lambda>(item, n). (case item of None \<Rightarrow> lookup s g | Some t \<Rightarrow> lookup s t, n)) ps) s
              = Some (register_function (gen_instance g r n ps) s)"
    if g: "g \<in> set gentypes" and s: "builtin_types s" for g s
  proof -
    from g gs have gb: "g \<in> set btypetoks" by auto
    have "denotes (case map_option (lookup ex) r of None \<Rightarrow> lookup s g | Some r' \<Rightarrow> r') (fill g r)"
      and "fill g r \<in> set btypetoks"
      using r gb lookup_denotes [OF ex] lookup_denotes [OF s]
      by (cases r; simp add: fill_def slot_ok_def)+
    then show ?thesis
      unfolding gen_instance_def
      by (rule define_builtin_function_proto [OF s _ _ gen_params [OF s gb ps]])
  qed
  have "for_each
          (\<lambda>gt ex'. define_builtin_function
                (case map_option (lookup ex) r of None \<Rightarrow> lookup ex' gt | Some r' \<Rightarrow> r') n
                (map (\<lambda>(item, n). (case item of None \<Rightarrow> lookup ex' gt | Some t \<Rightarrow> lookup ex' t, n)) ps) ex')
          gentypes ex
        = Some (fold (\<lambda>g. register_function (gen_instance g r n ps)) gentypes ex)"
    by (rule for_each_fold [where P = builtin_types], erule (1) body, simp, rule ex)
  then show ?thesis
    by (simp add: define_builtin_function_gen_def Let_def fold_map comp_def)
qed

lemma relvec_slot_denotes:
  assumes "relref_ok r" "i \<in> {0, 1, 2}"
  shows "denotes (relvec_slot i r) (family_member i r)" "family_member i r \<in> set btypetoks"
  using assms
  by (cases r; auto simp: relvec_slot_def vmap_def family_def btypetoks_def)+

lemma relvec_params:
  assumes "i \<in> {0, 1, 2}" "list_all (\<lambda>(p, x). relref_ok p) ps"
  shows "list_all2 (\<lambda>(r, x) (t, y). denotes r t \<and> x = y \<and> t \<in> set btypetoks)
           (map (\<lambda>(p, n). (relvec_slot i p, n)) ps)
           (map (\<lambda>(p, x). (family_member i p, x)) ps)"
  using assms(2)
proof (induction ps)
  case Nil
  then show ?case by simp
next
  case (Cons a ps)
  obtain p x where a: "a = (p, x)" by (cases a)
  show ?case using Cons relvec_slot_denotes [OF _ assms(1), of p]
    by (simp add: a)
qed

lemma define_builtin_relvec_function_fold:
  assumes ex: "builtin_types ex" and r: "relref_ok r" and ps: "list_all (\<lambda>(p, x). relref_ok p) ps"
  shows "define_builtin_relvec_function r n ps ex =
           Some (fold register_function (map (\<lambda>i. relvec_instance i r n ps) [0, 1, 2]) ex)"
proof -
  have body: "define_builtin_function (relvec_slot i r) n (map (\<lambda>(p, n). (relvec_slot i p, n)) ps) s
              = Some (register_function (relvec_instance i r n ps) s)"
    if i: "i \<in> set [0, 1, 2]" and s: "builtin_types s" for i :: nat and s
  proof -
    from i have i': "i \<in> {0, 1, 2}" by simp
    show ?thesis
      unfolding relvec_instance_def
      by (rule define_builtin_function_proto
            [OF s relvec_slot_denotes(1) [OF r i'] relvec_slot_denotes(2) [OF r i']
                relvec_params [OF i' ps]])
  qed
  have "for_each
          (\<lambda>i. define_builtin_function (relvec_slot i r) n (map (\<lambda>(p, n). (relvec_slot i p, n)) ps))
          [0, 1, 2] ex
        = Some (fold (\<lambda>i. register_function (relvec_instance i r n ps)) [0, 1, 2] ex)"
    by (rule for_each_fold [where P = builtin_types], erule (1) body, simp, rule ex)
  then show ?thesis
    by (simp add: define_builtin_relvec_function_def)
qed

lemma plain_params:
  assumes "list_all (\<lambda>(t, x). t \<in> set btypetoks) ps"
  shows "list_all2 (\<lambda>(r, x) (t, y). denotes r t \<and> x = y \<and> t \<in> set btypetoks)
           (map (\<lambda>(t, x). (Tok t, x)) ps) ps"
  using assms by (induction ps) auto

lemma exec_function_call:
  assumes "builtin_types ex" "function_call_ok c"
  shows "exec_call dtn c ex = Some (fold register_function (call_protos c) ex)"
proof (cases c)
  case (Gentype r n ps)
  with assms show ?thesis
    by (simp add: define_builtin_gentype_function_def define_builtin_function_gen_fold
        gentype_toks_def btypetoks_def)
next
  case (Mat r n ps)
  with assms show ?thesis
    by (simp add: define_builtin_mat_function_def define_builtin_function_gen_fold
        mat_toks_def btypetoks_def)
next
  case (Relvec r n ps)
  with assms show ?thesis
    by (simp add: define_builtin_relvec_function_fold)
next
  case (Plain r n ps)
  with assms have "define_builtin_function (Tok r) n (map (\<lambda>(t, x). (Tok t, x)) ps) ex
      = Some (register_function (proto r n ps) ex)"
    by (intro define_builtin_function_proto plain_params) simp_all
  with Plain show ?thesis by simp
qed (use assms in simp_all)

lemma for_each_function_calls:
  assumes "builtin_types ex" "list_all function_call_ok cs"
  shows "for_each (exec_call dtn) cs ex = Some (fold register_function (concat (map call_protos cs)) ex)"
  using assms
proof (induction cs arbitrary: ex)
  case Nil
  then show ?case by simp
next
  case (Cons c cs)
  then show ?case by (simp add: exec_function_call)
qed

lemma function_calls_ok: "list_all function_call_ok function_calls"
  by (simp add: function_calls_def slot_ok_def btypetoks_def)

lemma builtin_decl_eq [simp]: "builtin_decl t = builtin_decl t' \<longleftrightarrow> t = t'"
  by (auto simp: builtin_decl_def)

lemma type_text_builtin_decl [simp]: "type_text (builtin_decl t) = Type_name t"
  by (simp add: builtin_decl_def)

lemma function_calls_consistent: "consistent function_calls"
  unfolding consistent_def function_calls_def
  by (simp add: agree_def signature_def proto_def gen_instance_def relvec_instance_def
      fill_def family_def gentype_toks_def mat_toks_def js_str_def Type_name_def)

lemma add_operator_frame [simp]:
  "TypeMap (add_operator so ex) = TypeMap ex"
  "Types (add_operator so ex) = Types ex"
  "Functions (add_operator so ex) = Functions ex"
  "FunctionMap (add_operator so ex) = FunctionMap ex"
  "Operators (add_operator so ex) = Operators ex @ [snd so]"
  "OperatorMap (add_operator so ex) = (OperatorMap ex)(fst so \<mapsto> snd so)"
  by (simp_all add: add_operator_def)

lemma fold_add_operator_frame [simp]:
  "TypeMap (fold add_operator sos ex) = TypeMap ex"
  "Functions (fold add_operator sos ex) = Functions ex"
  "FunctionMap (fold add_operator sos ex) = FunctionMap ex"
  "Operators (fold add_operator sos ex) = Operators ex @ map snd sos"
  by (induction sos arbitrary: ex) simp_all

lemma OperatorMap_fold_add_operator:
  "OperatorMap (fold add_operator sos ex) k =
     fold (\<lambda>so found. if fst so = k then Some (snd so) else found) sos (OperatorMap ex k)"
  by (induction sos arbitrary: ex) simp_all

text \<open>A loop whose body builds something from the types alone and then stores it.\<close>

lemma for_each_those:
  assumes "\<And>x s'. TypeMap s' = TypeMap s \<Longrightarrow> body x s' = map_option (\<lambda>p. step p s') (mk x)"
    and "\<And>p s'. TypeMap (step p s') = TypeMap s'"
  shows "for_each body xs s = map_option (\<lambda>ps. fold step ps s) (those (map mk xs))"
proof -
  have "TypeMap s' = TypeMap s \<Longrightarrow>
        for_each body xs s' = map_option (\<lambda>ps. fold step ps s') (those (map mk xs))" for s'
  proof (induction xs arbitrary: s')
    case Nil
    then show ?case by simp
  next
    case (Cons x xs)
    show ?case
    proof (cases "mk x")
      case None
      with Cons.prems assms(1) show ?thesis by simp
    next
      case (Some p)
      have "TypeMap (step p s') = TypeMap s" using Cons.prems assms(2) by simp
      from Cons.IH [OF this] Some Cons.prems assms(1) show ?thesis
        by (cases "those (map mk xs)") simp_all
    qed
  qed
  then show ?thesis by simp
qed

lemma builtin_type_of_types:
  "TypeMap s' = TypeMap s \<Longrightarrow> builtin_type_of s' = builtin_type_of s"
  by (rule ext) (simp add: builtin_type_of_def)

lemma bin_operator_types:
  assumes "TypeMap s' = TypeMap s"
  shows "bin_operator s' dtn rt l r opt g = bin_operator s dtn rt l r opt g"
  unfolding bin_operator_def builtin_type_of_types [OF assms] by (rule refl)

lemma unary_operator_types:
  assumes "TypeMap s' = TypeMap s"
  shows "unary_operator s' dtn rt e opt g = unary_operator s dtn rt e opt g"
  unfolding unary_operator_def builtin_type_of_types [OF assms] by (rule refl)

lemma those_append:
  "those (xs @ ys) =
     (case those xs of None \<Rightarrow> None | Some as \<Rightarrow> map_option ((@) as) (those ys))"
proof (induction xs)
  case Nil
  show ?case by (cases "those ys") simp_all
next
  case (Cons x xs)
  show ?case
  proof (cases x)
    case None
    then show ?thesis by simp
  next
    case (Some a)
    show ?thesis
    proof (cases "those xs")
      case None
      with Some Cons show ?thesis by simp
    next
      case (Some as)
      with \<open>x = Some a\<close> Cons show ?thesis by (cases "those ys") simp_all
    qed
  qed
qed

lemma those_concat:
  "those (concat xss) = map_option concat (those (map those xss))"
proof (induction xss)
  case Nil
  then show ?case by simp
next
  case (Cons xs xss)
  show ?case
  proof (cases "those xs")
    case None
    then show ?thesis by (simp add: those_append)
  next
    case (Some as)
    with Cons show ?thesis
      by (cases "those (map those xss)") (simp_all add: those_append)
  qed
qed

lemma fold_fold_concat: "fold (fold f) xss s = fold f (concat xss) s"
  by (induction xss arbitrary: s) simp_all

lemma for_each_nested:
  assumes "\<And>x y s'. TypeMap s' = TypeMap s \<Longrightarrow> body x y s' = map_option (\<lambda>p. step p s') (mk x y)"
    and "\<And>p s'. TypeMap (step p s') = TypeMap s'"
  shows "for_each (\<lambda>x. for_each (body x) ys) xs s =
           map_option (\<lambda>ps. fold step ps s) (those (concat (map (\<lambda>x. map (mk x) ys) xs)))"
proof -
  have frame: "TypeMap (fold step ps s') = TypeMap s'" for ps s'
    by (induction ps arbitrary: s') (simp_all add: assms(2))
  have inner: "for_each (body x) ys s' = map_option (\<lambda>ps. fold step ps s') (those (map (mk x) ys))"
    if "TypeMap s' = TypeMap s" for x s'
    by (rule for_each_those [where s = s']) (simp_all add: assms that)
  have outer: "for_each (\<lambda>x. for_each (body x) ys) xs s =
      map_option (\<lambda>pss. fold (fold step) pss s) (those (map (\<lambda>x. those (map (mk x) ys)) xs))"
    by (rule for_each_those [where step = "fold step"]) (simp_all add: inner frame)
  show ?thesis
  proof (cases "those (map (\<lambda>x. those (map (mk x) ys)) xs)")
    case None
    then show ?thesis by (simp add: outer those_concat comp_def)
  next
    case (Some pss)
    then show ?thesis by (simp add: outer those_concat comp_def fold_fold_concat)
  qed
qed

lemma define_builtin_bin_operator_gen_fold:
  "define_builtin_bin_operator_gen dtn rt optypes l r gens ex =
     map_option (\<lambda>sos. fold add_operator sos ex) (those (bin_operators ex dtn rt optypes l r gens))"
  unfolding define_builtin_bin_operator_gen_def bin_operators_def
proof (rule for_each_nested
        [where body = "\<lambda>opt g. bin_operator_entry dtn rt l r opt g"
           and mk = "\<lambda>opt g. bin_operator ex dtn rt l r opt g" and step = add_operator])
  show "bin_operator_entry dtn rt l r x y s' =
          map_option (\<lambda>p. add_operator p s') (bin_operator ex dtn rt l r x y)"
    if "TypeMap s' = TypeMap ex" for x y s'
    using bin_operator_types [OF that] by (simp add: bin_operator_entry_def)
  show "TypeMap (add_operator p s') = TypeMap s'" for p s' by simp
qed

lemma define_builtin_unary_operator_gen_fold:
  "define_builtin_unary_operator_gen dtn rt optypes e gens ex =
     map_option (\<lambda>sos. fold add_operator sos ex) (those (unary_operators ex dtn rt optypes e gens))"
  unfolding define_builtin_unary_operator_gen_def unary_operators_def
proof (rule for_each_nested
        [where body = "\<lambda>opt g. unary_operator_entry dtn rt e opt g"
           and mk = "\<lambda>opt g. unary_operator ex dtn rt e opt g" and step = add_operator])
  show "unary_operator_entry dtn rt e x y s' =
          map_option (\<lambda>p. add_operator p s') (unary_operator ex dtn rt e x y)"
    if "TypeMap s' = TypeMap ex" for x y s'
    using unary_operator_types [OF that] by (simp add: unary_operator_entry_def)
  show "TypeMap (add_operator p s') = TypeMap s'" for p s' by simp
qed

lemma builtin_type_of_builtin:
  "builtin_types ex \<Longrightarrow> t \<in> set btypetoks \<Longrightarrow> builtin_type_of ex t = Some (new_Type t)"
  by (simp add: builtin_type_of_def builtin_types_def TypeMap_create_builtin builtin_decl_def)

lemma fill_ok: "slot_ok t \<Longrightarrow> g \<in> set btypetoks \<Longrightarrow> fill g t \<in> set btypetoks"
  by (cases t) (simp_all add: slot_ok_def fill_def)

lemma name_new_Type [simp]: "name (new_Type t) = Type_name t"
  by (simp add: new_Type_def)

lemma bin_operator_builtin:
  assumes "builtin_types ex" "slot_ok rt" "slot_ok l" "slot_ok r" "g \<in> set btypetoks"
  shows "bin_operator ex dtn rt l r opt g = Some (bin_operator_at dtn rt l r opt g)"
  using builtin_type_of_builtin [OF assms(1) fill_ok [OF assms(2) assms(5)]]
    builtin_type_of_builtin [OF assms(1) fill_ok [OF assms(3) assms(5)]]
    builtin_type_of_builtin [OF assms(1) fill_ok [OF assms(4) assms(5)]]
  by (simp add: bin_operator_def bin_operator_at_def fill_def)

lemma unary_operator_builtin:
  assumes "builtin_types ex" "slot_ok rt" "slot_ok e" "g \<in> set btypetoks"
  shows "unary_operator ex dtn rt e opt g = Some (unary_operator_at dtn rt e opt g)"
  using builtin_type_of_builtin [OF assms(1) fill_ok [OF assms(2) assms(4)]]
    builtin_type_of_builtin [OF assms(1) fill_ok [OF assms(3) assms(4)]]
  by (simp add: unary_operator_def unary_operator_at_def fill_def)

lemma those_map_Some: "those (map Some xs) = Some xs"
  by (induction xs) simp_all

lemma exec_operator_call:
  assumes "builtin_types ex" "operator_call_ok c"
  shows "exec_call dtn c ex = Some (fold add_operator (call_operators dtn c) ex)"
proof (cases c)
  case (BinOp rt ops l r gens)
  with assms have ok: "slot_ok rt" "slot_ok l" "slot_ok r" "\<forall>g\<in>set gens. g \<in> set btypetoks"
    by (simp_all add: list_all_iff)
  have "bin_operator ex dtn rt l r opt g = Some (bin_operator_at dtn rt l r opt g)"
    if "g \<in> set gens" for opt g
    using ok that bin_operator_builtin [OF assms(1)] by simp
  then have "bin_operators ex dtn rt ops l r gens = map Some (call_operators dtn c)"
    by (simp add: bin_operators_def BinOp map_concat comp_def cong: map_cong)
  then show ?thesis
    by (simp add: BinOp define_builtin_bin_operator_gen_fold those_map_Some del: call_operators.simps)
next
  case (UnOp rt ops e gens)
  with assms have ok: "slot_ok rt" "slot_ok e" "\<forall>g\<in>set gens. g \<in> set btypetoks"
    by (simp_all add: list_all_iff)
  have "unary_operator ex dtn rt e opt g = Some (unary_operator_at dtn rt e opt g)"
    if "g \<in> set gens" for opt g
    using ok that unary_operator_builtin [OF assms(1)] by simp
  then have "unary_operators ex dtn rt ops e gens = map Some (call_operators dtn c)"
    by (simp add: unary_operators_def UnOp map_concat comp_def cong: map_cong)
  then show ?thesis
    by (simp add: UnOp define_builtin_unary_operator_gen_fold those_map_Some del: call_operators.simps)
qed (use assms in simp_all)

lemma builtin_types_fold_add_operator [simp]:
  "builtin_types (fold add_operator sos ex) = builtin_types ex"
  by (simp add: builtin_types_def)

lemma for_each_operator_calls:
  assumes "builtin_types ex" "list_all operator_call_ok cs"
  shows "for_each (exec_call dtn) cs ex
           = Some (fold add_operator (concat (map (call_operators dtn) cs)) ex)"
  using assms
proof (induction cs arbitrary: ex)
  case Nil
  then show ?case by simp
next
  case (Cons c cs)
  then show ?case by (simp add: exec_operator_call)
qed

lemma operator_calls_ok: "list_all operator_call_ok operator_calls"
  by (simp add: operator_calls_def slot_ok_def btypetoks_def)

lemma builtin_types_create [simp]: "builtin_types Type_create_builtin"
  by (simp add: builtin_types_def)

lemma build_functions_eq:
  "builtin_types ex \<Longrightarrow> build_functions ex = Some (fold register_function all_protos ex)"
  by (simp add: build_functions_def all_protos_def for_each_function_calls function_calls_ok)

lemma build_operators_eq:
  "builtin_types ex \<Longrightarrow> build_operators dtn ex = Some (fold add_operator (all_operators dtn) ex)"
  by (simp add: build_operators_def all_operators_def for_each_operator_calls operator_calls_ok)

lemma builtins_eq:
  "builtins dtn =
     Some (fold add_operator (all_operators dtn) (fold register_function all_protos Type_create_builtin))"
  by (simp add: builtins_def build_functions_eq build_operators_eq)

lemma fn_tables_ok_lookup:
  assumes "fn_tables_ok ex"
  shows "FunctionMap ex s = Some f \<longleftrightarrow> f \<in> set (Functions ex) \<and> signature f = s"
proof -
  have "distinct (map fst (map (\<lambda>f. (signature f, f)) (Functions ex)))"
    using assms by (simp add: fn_tables_ok_def comp_def)
  then have "map_of (map (\<lambda>f. (signature f, f)) (Functions ex)) s = Some f
      \<longleftrightarrow> (s, f) \<in> set (map (\<lambda>f. (signature f, f)) (Functions ex))"
    by (rule map_of_eq_Some_iff)
  with assms show ?thesis by (auto simp: fn_tables_ok_def)
qed

lemma fn_tables_ok_register:
  assumes "fn_tables_ok ex"
  shows "fn_tables_ok (register_function f ex)"
proof (cases "FunctionMap ex (signature f)")
  case (Some g)
  with assms show ?thesis by (simp add: register_function_def)
next
  case None
  let ?ps = "map (\<lambda>f. (signature f, f)) (Functions ex)"
  from assms have d: "distinct (map signature (Functions ex))" and m: "FunctionMap ex = map_of ?ps"
    by (simp_all add: fn_tables_ok_def)
  have fresh: "signature f \<notin> set (map signature (Functions ex))"
  proof
    assume "signature f \<in> set (map signature (Functions ex))"
    then obtain g where "g \<in> set (Functions ex)" "signature g = signature f" by auto
    with fn_tables_ok_lookup [OF assms, of "signature f" g] None show False by simp
  qed
  have "map_of (?ps @ [(signature f, f)]) k = ((map_of ?ps)(signature f \<mapsto> f)) k" for k
  proof (cases "k = signature f")
    case True
    with None m show ?thesis by (simp add: map_add_def)
  next
    case False
    then show ?thesis by (simp add: map_add_def split: option.splits)
  qed
  then have "map_of (?ps @ [(signature f, f)]) = (FunctionMap ex)(signature f \<mapsto> f)"
    unfolding m by (rule ext)
  with None fresh d show ?thesis
    by (simp add: register_function_def fn_tables_ok_def)
qed

lemma fn_tables_ok_fold:
  "fn_tables_ok ex \<Longrightarrow> fn_tables_ok (fold register_function fs ex)"
proof (induction fs arbitrary: ex)
  case Nil
  then show ?case by simp
next
  case (Cons f fs)
  from Cons.IH [OF fn_tables_ok_register [OF Cons.prems]] show ?case by simp
qed

lemma fn_tables_ok_create: "fn_tables_ok Type_create_builtin"
  by (simp add: fn_tables_ok_def tables_create_builtin)

lemma register_function_keeps:
  assumes "FunctionMap ex s = Some f"
  shows "FunctionMap (register_function g ex) s = Some f"
proof (cases "FunctionMap ex (signature g)")
  case None
  with assms have "s \<noteq> signature g" by auto
  with None assms show ?thesis by (simp add: register_function_def)
next
  case (Some h)
  with assms show ?thesis by (simp add: register_function_def)
qed

lemma fold_register_function_keeps:
  "FunctionMap ex s = Some f \<Longrightarrow> FunctionMap (fold register_function gs ex) s = Some f"
proof (induction gs arbitrary: ex)
  case Nil
  then show ?case by simp
next
  case (Cons g gs)
  from Cons.IH [OF register_function_keeps [OF Cons.prems]] show ?case by simp
qed

lemma register_function_present:
  "FunctionMap (register_function f ex) (signature f) \<noteq> None"
  by (cases "FunctionMap ex (signature f)") (simp_all add: register_function_def)

lemma fold_register_function_present:
  "f \<in> set fs \<Longrightarrow> FunctionMap (fold register_function fs ex) (signature f) \<noteq> None"
proof (induction fs arbitrary: ex)
  case Nil
  then show ?case by simp
next
  case (Cons g fs)
  show ?case
  proof (cases "f = g")
    case True
    obtain h where "FunctionMap (register_function g ex) (signature g) = Some h"
      using register_function_present [of g ex] by blast
    from fold_register_function_keeps [OF this] show ?thesis using True by simp
  next
    case False
    with Cons show ?thesis by simp
  qed
qed

lemma Functions_register_function:
  "set (Functions (register_function f ex)) \<subseteq> insert f (set (Functions ex))"
  by (cases "FunctionMap ex (signature f)") (auto simp: register_function_def)

lemma Functions_fold_register_function:
  "set (Functions (fold register_function fs ex)) \<subseteq> set (Functions ex) \<union> set fs"
proof (induction fs arbitrary: ex)
  case Nil
  then show ?case by simp
next
  case (Cons f fs)
  have "set (Functions (fold register_function fs (register_function f ex)))
          \<subseteq> set (Functions (register_function f ex)) \<union> set fs"
    by (rule Cons.IH)
  also have "\<dots> \<subseteq> insert f (set (Functions ex)) \<union> set fs"
    using Functions_register_function [of f ex] by blast
  finally show ?case by simp
qed

lemma filter_distinct_key:
  "distinct (map h xs) \<Longrightarrow> x \<in> set xs \<Longrightarrow> filter (\<lambda>y. h y = h x) xs = [x]"
proof (induction xs)
  case Nil
  then show ?case by simp
next
  case (Cons a xs)
  show ?case
  proof (cases "a = x")
    case True
    from Cons.prems(1) have "h a \<notin> h ` set xs" by simp
    then have "\<And>y. y \<in> set xs \<Longrightarrow> h y \<noteq> h a" by (metis imageI)
    with True have "filter (\<lambda>y. h y = h x) xs = []"
      by (simp add: filter_empty_conv)
    with True show ?thesis by simp
  next
    case False
    with Cons.prems have xin: "x \<in> set xs" and d: "distinct (map h xs)" and "h a \<notin> h ` set xs"
      by simp_all
    then have "h a \<noteq> h x" by (metis imageI)
    with Cons.IH [OF d xin] show ?thesis by simp
  qed
qed

lemma registered_proto:
  assumes f: "f \<in> set all_protos"
    and agree: "\<And>f'. f' \<in> set all_protos \<Longrightarrow> signature f' = signature f \<Longrightarrow> f' = f"
  shows "filter (\<lambda>h. signature h = signature f) (Functions function_tables) = [f]"
    and "FunctionMap function_tables (signature f) = Some f"
proof -
  have ok: "fn_tables_ok function_tables"
    unfolding function_tables_def by (intro fn_tables_ok_fold fn_tables_ok_create)
  from fold_register_function_present [OF f]
  obtain h where h: "FunctionMap function_tables (signature f) = Some h"
    unfolding function_tables_def by blast
  with fn_tables_ok_lookup [OF ok] have hin: "h \<in> set (Functions function_tables)"
    and hs: "signature h = signature f" by auto
  from hin Functions_fold_register_function [of all_protos Type_create_builtin]
  have "h \<in> set all_protos" by (auto simp: function_tables_def tables_create_builtin)
  with agree hs have "h = f" by simp
  with h show "FunctionMap function_tables (signature f) = Some f" by simp
  from ok have "distinct (map signature (Functions function_tables))"
    by (simp add: fn_tables_ok_def)
  from filter_distinct_key [OF this] hin \<open>h = f\<close>
  show "filter (\<lambda>h. signature h = signature f) (Functions function_tables) = [f]" by simp
qed

lemma list_allD: "list_all P xs \<Longrightarrow> x \<in> set xs \<Longrightarrow> P x"
  by (simp add: list_all_iff)

lemma signature_fname:
  assumes "CHR ''('' \<notin> set (fname f)"
  shows "takeWhile (\<lambda>c. c \<noteq> CHR ''('') (signature f) = fname f"
proof -
  have "takeWhile (\<lambda>c. c \<noteq> CHR ''('') (fname f @ CHR ''('' # rest) = fname f" for rest
    using assms by (subst takeWhile_append2) auto
  then show ?thesis by (simp add: signature_def)
qed

lemma fname_call_protos: "f \<in> set (call_protos c) \<Longrightarrow> fname f = call_name c"
  by (cases c) (auto simp: proto_def gen_instance_def relvec_instance_def)

lemma call_names_plain: "list_all (\<lambda>c. CHR ''('' \<notin> set (call_name c)) function_calls"
  by (simp add: function_calls_def)

lemma all_protos_call:
  assumes "f \<in> set all_protos"
  obtains c where "c \<in> set function_calls" "f \<in> set (call_protos c)" "fname f = call_name c"
    "CHR ''('' \<notin> set (fname f)"
proof -
  from assms obtain c where c: "c \<in> set function_calls" "f \<in> set (call_protos c)"
    by (auto simp: all_protos_def)
  moreover from c have "fname f = call_name c" by (simp add: fname_call_protos)
  moreover from c(1) call_names_plain have "CHR ''('' \<notin> set (call_name c)"
    by (simp add: list_all_iff)
  ultimately show ?thesis using that by simp
qed

lemma all_protos_agree:
  assumes f: "f \<in> set all_protos" and f': "f' \<in> set all_protos"
    and sig: "signature f' = signature f"
  shows "f' = f"
proof -
  from f obtain c where c: "c \<in> set function_calls" "f \<in> set (call_protos c)"
    "fname f = call_name c" "CHR ''('' \<notin> set (fname f)" by (rule all_protos_call)
  from f' obtain c' where c': "c' \<in> set function_calls" "f' \<in> set (call_protos c')"
    "fname f' = call_name c'" "CHR ''('' \<notin> set (fname f')" by (rule all_protos_call)
  from sig signature_fname [OF c(4)] signature_fname [OF c'(4)] have "fname f' = fname f" by simp
  with c(3) c'(3) have eq: "call_name c' = call_name c" by simp
  have "list_all (\<lambda>c1. list_all (\<lambda>c2.
          if call_name c1 = call_name c2
          then list_all (\<lambda>f. list_all (agree f) (call_protos c2)) (call_protos c1)
          else True) function_calls) function_calls"
    using function_calls_consistent unfolding consistent_def .
  from list_allD [OF list_allD [OF this c'(1)] c(1)] eq
  have "list_all (\<lambda>f. list_all (agree f) (call_protos c)) (call_protos c')" by simp
  from list_allD [OF list_allD [OF this c'(2)] c(2)] have "agree f' f" .
  with sig show ?thesis by (simp add: agree_def)
qed

lemma Functions_function_tables:
  "f \<in> set (Functions function_tables) \<Longrightarrow> f \<in> set all_protos"
  using Functions_fold_register_function [of all_protos Type_create_builtin]
  by (auto simp: function_tables_def tables_create_builtin)

lemma builtins_function_tables:
  "\<exists>ex. builtins dtn = Some ex \<and> Functions ex = Functions function_tables
        \<and> FunctionMap ex = FunctionMap function_tables"
  by (simp add: builtins_eq function_tables_def)

lemma function_calls_gentype_closed: "gentype_closed function_calls"
  unfolding gentype_closed_def function_calls_def
  by (simp add: is_gentype_slot_def gentype_toks_def signature_def gen_instance_def proto_def
      fill_def js_str_def Type_name_def)

lemma function_calls_relvec_closed: "relvec_closed function_calls"
  unfolding relvec_closed_def function_calls_def
  by (simp add: signature_def relvec_instance_def proto_def family_def js_str_def Type_name_def)

lemma type_token_builtin_decl [simp]: "type_token (builtin_decl t) = t"
  by (simp add: builtin_decl_def)

lemma gentype_call_closed:
  assumes c: "c \<in> set function_calls" "c = Gentype r n ps"
  shows "distinct (map (\<lambda>g. signature (gen_instance g r n ps)) gentype_toks)"
    and "\<And>c'. c' \<in> set function_calls \<Longrightarrow> call_name c' = n \<Longrightarrow>
           \<exists>r' ps'. c' = Gentype r' n ps' \<and> list_all (\<lambda>(t, x). is_gentype_slot t) ps'"
proof -
  have "list_all (\<lambda>c. case c of
         Gentype r n ps \<Rightarrow>
           distinct (map (\<lambda>g. signature (gen_instance g r n ps)) gentype_toks) \<and>
           list_all (\<lambda>c'. if call_name c' = n
                          then (case c' of
                                  Gentype r' n' ps' \<Rightarrow> list_all (\<lambda>(t, x). is_gentype_slot t) ps'
                                | _ \<Rightarrow> False)
                          else True) function_calls
       | _ \<Rightarrow> True) function_calls"
    using function_calls_gentype_closed unfolding gentype_closed_def .
  from list_allD [OF this c(1)] c(2)
  have d: "distinct (map (\<lambda>g. signature (gen_instance g r n ps)) gentype_toks)"
    and l: "list_all (\<lambda>c'. if call_name c' = n
                          then (case c' of
                                  Gentype r' n' ps' \<Rightarrow> list_all (\<lambda>(t, x). is_gentype_slot t) ps'
                                | _ \<Rightarrow> False)
                          else True) function_calls"
    by simp_all
  show "distinct (map (\<lambda>g. signature (gen_instance g r n ps)) gentype_toks)" by (rule d)
  show "\<exists>r' ps'. c' = Gentype r' n ps' \<and> list_all (\<lambda>(t, x). is_gentype_slot t) ps'"
    if "c' \<in> set function_calls" "call_name c' = n" for c'
    using list_allD [OF l that(1)] that(2) by (cases c') simp_all
qed

lemma gen_instance_parameters:
  assumes "list_all (\<lambda>(t, x). is_gentype_slot t) ps" "g \<in> set gentype_toks"
  shows "list_all (\<lambda>p. type_token (ptype p) \<in> set gentype_toks) (parameters (gen_instance g r n ps))"
proof -
  have "fill g t \<in> set gentype_toks" if "is_gentype_slot t" for t
    using that assms(2) by (cases t) (simp_all add: is_gentype_slot_def fill_def)
  with assms(1) show ?thesis
    by (induction ps) (auto simp: gen_instance_def proto_def)
qed

lemma relvec_call_closed:
  assumes c: "c \<in> set function_calls" "c = Relvec r n ps"
  shows "distinct (map (\<lambda>i. signature (relvec_instance i r n ps)) [0, 1, 2])"
    and "\<And>c'. c' \<in> set function_calls \<Longrightarrow> call_name c' = n \<Longrightarrow> \<exists>r' ps'. c' = Relvec r' n ps'"
proof -
  have "list_all (\<lambda>c. case c of
         Relvec r n ps \<Rightarrow>
           distinct (map (\<lambda>i. signature (relvec_instance i r n ps)) [0, 1, 2]) \<and>
           list_all (\<lambda>c'. if call_name c' = n
                          then (case c' of Relvec r' n' ps' \<Rightarrow> True | _ \<Rightarrow> False)
                          else True) function_calls
       | _ \<Rightarrow> True) function_calls"
    using function_calls_relvec_closed unfolding relvec_closed_def .
  from list_allD [OF this c(1)] c(2)
  have d: "distinct (map (\<lambda>i. signature (relvec_instance i r n ps)) [0, 1, 2])"
    and l: "list_all (\<lambda>c'. if call_name c' = n
                          then (case c' of Relvec r' n' ps' \<Rightarrow> True | _ \<Rightarrow> False)
                          else True) function_calls"
    by simp_all
  show "distinct (map (\<lambda>i. signature (relvec_instance i r n ps)) [0, 1, 2])" by (rule d)
  show "\<exists>r' ps'. c' = Relvec r' n ps'"
    if "c' \<in> set function_calls" "call_name c' = n" for c'
    using list_allD [OF l that(1)] that(2) by (cases c') simp_all
qed

lemma new_Type_eq [simp]: "new_Type t = new_Type t' \<longleftrightarrow> t = t'"
  by (auto simp: new_Type_def)

lemma fold_register_function_frame [simp]:
  "Operators (fold register_function fs ex) = Operators ex"
  "OperatorMap (fold register_function fs ex) = OperatorMap ex"
  by (induction fs arbitrary: ex) simp_all

lemma tables_function_tables:
  "Operators function_tables = []" "OperatorMap function_tables = Map.empty"
  by (simp_all add: function_tables_def tables_create_builtin)

lemma builtins_operators:
  "\<exists>ex. builtins dtn = Some ex \<and> Operators ex = map snd (all_operators dtn) \<and>
     (\<forall>k. OperatorMap ex k =
        fold (\<lambda>so found. if fst so = k then Some (snd so) else found) (all_operators dtn) None)"
  by (simp add: builtins_eq OperatorMap_fold_add_operator tables_function_tables
      flip: function_tables_def)

lemma all_operators_bool:
  "list_all (\<lambda>so. op (snd so) \<in> set rel_eq_ops \<longrightarrow> ret (snd so) = new_Type T_BOOL) (all_operators dtn)"
  by (simp add: all_operators_def operator_calls_def bin_operator_at_def unary_operator_at_def
      fill_def rel_eq_ops_def)

lemma all_operators_bool_count:
  "length (filter (\<lambda>opr. op opr \<in> set rel_eq_ops) (map snd (all_operators dtn))) = 32"
  by (simp add: all_operators_def operator_calls_def bin_operator_at_def unary_operator_at_def
      fill_def rel_eq_ops_def)

lemma fold_last_match:
  "fold (\<lambda>so found. if fst so = k then Some (snd so) else found) sos init = Some opr
     \<Longrightarrow> init = Some opr \<or> opr \<in> snd ` set sos"
proof (induction sos arbitrary: init)
  case Nil
  then show ?case by simp
next
  case (Cons so sos)
  from Cons.IH [OF Cons.prems [simplified]] show ?case
    by (auto split: if_splits)
qed

lemma those_map_rel:
  assumes "those (map f xs) = Some ys" and "\<And>x y. f x = Some y \<Longrightarrow> h y = k x"
  shows "map h ys = map k xs"
  using assms(1)
proof (induction xs arbitrary: ys)
  case Nil
  then show ?case by simp
next
  case (Cons x xs)
  from Cons.prems obtain y ys' where y: "f x = Some y" "those (map f xs) = Some ys'" "ys = y # ys'"
    by (auto split: option.splits)
  from Cons.IH [OF y(2)] assms(2) [OF y(1)] y(3) show ?case by simp
qed

lemma concat_map_product:
  "concat (map (\<lambda>x. map (F x) ys) xs) = map (\<lambda>(x, y). F x y) (List.product xs ys)"
  by (induction xs) (simp_all add: comp_def)

lemma bin_operator_ret:
  assumes "bin_operator ex dtn rt l r opt g = Some so"
  shows "(op (snd so), Some (ret (snd so))) = (opt, builtin_type_of ex (fill g rt))"
  using assms by (auto simp: bin_operator_def fill_def split: option.splits)

lemma unary_operator_ret:
  assumes "unary_operator ex dtn rt e opt g = Some so"
  shows "(op (snd so), Some (ret (snd so))) = (opt, builtin_type_of ex (fill g rt))"
  using assms by (auto simp: unary_operator_def fill_def split: option.splits)

lemma define_builtin_bin_operator_gen_ret:
  assumes "define_builtin_bin_operator_gen dtn rt optypes l r gens ex = Some ex'"
  shows "\<exists>new. Operators ex' = Operators ex @ new \<and>
           map (\<lambda>opr. (op opr, Some (ret opr))) new
             = map (\<lambda>(opt, g). (opt, builtin_type_of ex (fill g rt))) (List.product optypes gens)"
proof -
  from assms obtain sos where sos: "those (bin_operators ex dtn rt optypes l r gens) = Some sos"
    and ex': "ex' = fold add_operator sos ex"
    by (auto simp: define_builtin_bin_operator_gen_fold)
  from sos have "those (map (\<lambda>(opt, g). bin_operator ex dtn rt l r opt g) (List.product optypes gens))
                   = Some sos"
    by (simp add: bin_operators_def concat_map_product)
  then have "map (\<lambda>so. (op (snd so), Some (ret (snd so)))) sos
               = map (\<lambda>(opt, g). (opt, builtin_type_of ex (fill g rt))) (List.product optypes gens)"
    by (rule those_map_rel) (auto dest: bin_operator_ret)
  then have "map (\<lambda>opr. (op opr, Some (ret opr))) (map snd sos)
               = map (\<lambda>(opt, g). (opt, builtin_type_of ex (fill g rt))) (List.product optypes gens)"
    by (simp add: comp_def)
  with ex' show ?thesis by simp
qed

lemma define_builtin_unary_operator_gen_ret:
  assumes "define_builtin_unary_operator_gen dtn rt optypes e gens ex = Some ex'"
  shows "\<exists>new. Operators ex' = Operators ex @ new \<and>
           map (\<lambda>opr. (op opr, Some (ret opr))) new
             = map (\<lambda>(opt, g). (opt, builtin_type_of ex (fill g rt))) (List.product optypes gens)"
proof -
  from assms obtain sos where sos: "those (unary_operators ex dtn rt optypes e gens) = Some sos"
    and ex': "ex' = fold add_operator sos ex"
    by (auto simp: define_builtin_unary_operator_gen_fold)
  from sos have "those (map (\<lambda>(opt, g). unary_operator ex dtn rt e opt g) (List.product optypes gens))
                   = Some sos"
    by (simp add: unary_operators_def concat_map_product)
  then have "map (\<lambda>so. (op (snd so), Some (ret (snd so)))) sos
               = map (\<lambda>(opt, g). (opt, builtin_type_of ex (fill g rt))) (List.product optypes gens)"
    by (rule those_map_rel) (auto dest: unary_operator_ret)
  then have "map (\<lambda>opr. (op opr, Some (ret opr))) (map snd sos)
               = map (\<lambda>(opt, g). (opt, builtin_type_of ex (fill g rt))) (List.product optypes gens)"
    by (simp add: comp_def)
  with ex' show ?thesis by simp
qed

lemma star_lookup:
  "fold (\<lambda>so found. if fst so = ''*(mat2,vec2)'' then Some (snd so) else found)
     (all_operators token_name) None = Some (star_entry T_MAT2 T_VEC2 T_VEC2)"
  "fold (\<lambda>so found. if fst so = ''*(mat3,vec3)'' then Some (snd so) else found)
     (all_operators token_name) None = Some (star_entry T_MAT3 T_VEC3 T_VEC3)"
  "fold (\<lambda>so found. if fst so = ''*(mat4,vec4)'' then Some (snd so) else found)
     (all_operators token_name) None = Some (star_entry T_MAT4 T_VEC4 T_VEC4)"
  "fold (\<lambda>so found. if fst so = ''*(vec2,mat2)'' then Some (snd so) else found)
     (all_operators token_name) None = Some (star_entry T_VEC2 T_MAT2 T_MAT2)"
  "fold (\<lambda>so found. if fst so = ''*(vec3,mat3)'' then Some (snd so) else found)
     (all_operators token_name) None = Some (star_entry T_VEC3 T_MAT3 T_MAT3)"
  "fold (\<lambda>so found. if fst so = ''*(vec4,mat4)'' then Some (snd so) else found)
     (all_operators token_name) None = Some (star_entry T_VEC4 T_MAT4 T_MAT4)"
  by (simp_all add: all_operators_def operator_calls_def bin_operator_at_def unary_operator_at_def
      fill_def js_str_def Type_name_def token_name_def star_entry_def)

lemma star_entries:
  "filter (\<lambda>opr. op opr = T_STAR \<and> lhs opr = Some (new_Type T_MAT2) \<and> rhs opr = Some (new_Type T_VEC2))
     (map snd (all_operators dtn)) = [star_entry T_MAT2 T_VEC2 T_VEC2]"
  "filter (\<lambda>opr. op opr = T_STAR \<and> lhs opr = Some (new_Type T_MAT3) \<and> rhs opr = Some (new_Type T_VEC3))
     (map snd (all_operators dtn)) = [star_entry T_MAT3 T_VEC3 T_VEC3]"
  "filter (\<lambda>opr. op opr = T_STAR \<and> lhs opr = Some (new_Type T_MAT4) \<and> rhs opr = Some (new_Type T_VEC4))
     (map snd (all_operators dtn)) = [star_entry T_MAT4 T_VEC4 T_VEC4]"
  "filter (\<lambda>opr. op opr = T_STAR \<and> lhs opr = Some (new_Type T_VEC2) \<and> rhs opr = Some (new_Type T_MAT2))
     (map snd (all_operators dtn)) = [star_entry T_VEC2 T_MAT2 T_MAT2]"
  "filter (\<lambda>opr. op opr = T_STAR \<and> lhs opr = Some (new_Type T_VEC3) \<and> rhs opr = Some (new_Type T_MAT3))
     (map snd (all_operators dtn)) = [star_entry T_VEC3 T_MAT3 T_MAT3]"
  "filter (\<lambda>opr. op opr = T_STAR \<and> lhs opr = Some (new_Type T_VEC4) \<and> rhs opr = Some (new_Type T_MAT4))
     (map snd (all_operators dtn)) = [star_entry T_VEC4 T_MAT4 T_MAT4]"
  by (simp_all add: all_operators_def operator_calls_def bin_operator_at_def unary_operator_at_def
      fill_def star_entry_def)

lemma function_header_types:
  assumes "TypeMap ex' = TypeMap ex"
  shows "function_header ex' r n ps = function_header ex r n ps"
proof -
  have r: "resolve ex' = resolve ex"
    by (intro ext) (simp add: resolve_def assms split: typeref.splits)
  show ?thesis unfolding function_header_def r by (rule refl)
qed

lemma register_function_duplicate:
  "FunctionMap ex (signature f) \<noteq> None \<Longrightarrow> register_function f ex = ex"
  by (simp add: register_function_def)

lemma fold_register_function_duplicates:
  "(\<And>f. f \<in> set fs \<Longrightarrow> FunctionMap ex (signature f) \<noteq> None)
     \<Longrightarrow> fold register_function fs ex = ex"
  by (induction fs) (simp_all add: register_function_duplicate)

lemma define_builtin_function_duplicate:
  assumes "function_header ex r n ps = Some f" "FunctionMap ex (signature f) \<noteq> None"
  shows "define_builtin_function r n ps ex = Some ex"
  using assms by (simp add: define_builtin_function_def register_function_duplicate)

lemma define_builtin_function_idem:
  assumes "define_builtin_function r n ps ex = Some ex'"
  shows "define_builtin_function r n ps ex' = Some ex'"
proof -
  from assms obtain f where f: "function_header ex r n ps = Some f" "ex' = register_function f ex"
    by (auto simp: define_builtin_function_def split: option.splits)
  from f(2) have "function_header ex' r n ps = function_header ex r n ps"
    by (intro function_header_types) simp
  with f(1) have "function_header ex' r n ps = Some f" by simp
  moreover have "FunctionMap ex' (signature f) \<noteq> None"
    unfolding f(2) by (rule register_function_present)
  ultimately show ?thesis by (rule define_builtin_function_duplicate)
qed

lemma build_functions_idem:
  "\<exists>ft. build_functions Type_create_builtin = Some ft \<and> build_functions ft = Some ft"
proof -
  have "fold register_function all_protos function_tables = function_tables"
    unfolding function_tables_def
    by (rule fold_register_function_duplicates) (rule fold_register_function_present)
  moreover have "builtin_types function_tables" by (simp add: function_tables_def)
  ultimately show ?thesis
    by (simp add: build_functions_eq flip: function_tables_def)
qed

lemma add_operator_duplicate:
  assumes "OperatorMap ex sig \<noteq> None"
  shows "Operators (add_operator (sig, opr) ex) = Operators ex @ [opr]"
    and "OperatorMap (add_operator (sig, opr) ex) = (OperatorMap ex)(sig \<mapsto> opr)"
    and "dom (OperatorMap (add_operator (sig, opr) ex)) = dom (OperatorMap ex)"
  using assms by auto

lemma float_mat3_entries:
  "length (filter (\<lambda>opr. op opr = T_PLUS \<and> lhs opr = Some (new_Type T_FLOAT) \<and>
                          rhs opr = Some (new_Type T_MAT3)) (map snd (all_operators dtn))) = 2"
  by (simp add: all_operators_def operator_calls_def bin_operator_at_def unary_operator_at_def
      fill_def)

lemma float_mat4_entries:
  "filter (\<lambda>opr. op opr = T_PLUS \<and> lhs opr = Some (new_Type T_FLOAT) \<and>
                  rhs opr = Some (new_Type T_MAT4)) (map snd (all_operators dtn)) = []"
  by (simp add: all_operators_def operator_calls_def bin_operator_at_def unary_operator_at_def
      fill_def)

lemma gentype_toks_eq: "gentype_toks = [T_FLOAT, T_VEC2, T_VEC3, T_VEC4]"
  by (simp add: gentype_toks_def)

lemma no_sin_mat2: "list_all (\<lambda>f. signature f \<noteq> ''sin(mat2)'') all_protos"
  by (simp add: all_protos_def function_calls_def gentype_toks_def mat_toks_def signature_def
      gen_instance_def relvec_instance_def proto_def family_def fill_def js_str_def Type_name_def)

lemma fn_tables_ok_function_tables: "fn_tables_ok function_tables"
  unfolding function_tables_def by (intro fn_tables_ok_fold fn_tables_ok_create)

section \<open>The store's cursor and the stack expressions\<close>

lemma key_of_Some: "key_of v = Some k \<longleftrightarrow> v = Some (Key k)"
  by (auto simp: key_of_def split: option.splits jsval.splits)

lemma key_of_Some_sym: "Some k = key_of v \<longleftrightarrow> v = Some (Key k)"
  by (auto simp: key_of_def split: option.splits jsval.splits)

lemma key_of_Key [simp]: "key_of (Some (Key k)) = Some k"
  by (simp add: key_of_def)

lemma index_entries_iff:
  "(ki, d) \<in> set (index_entries path db) \<longleftrightarrow>
     d \<in> set db \<and> d path = Some (Key (fst ki)) \<and> d ''id'' = Some (Key (snd ki))"
  by (cases ki) (auto simp: index_entries_def key_of_Some key_of_Some_sym split: option.splits)

lemma index_records_entries:
  "index_records path db = map snd (sort_key fst (index_entries path db))"
  by (simp add: index_records_def)

lemma all_handler_run: "all_handler (map At vs @ [End]) acc = Some (acc @ vs)"
  by (induction vs arbitrary: acc) simp_all

lemma last_handler_run:
  "last_handler (map At vs @ [End]) = Some (case vs of [] \<Rightarrow> None | v # _ \<Rightarrow> Some v)"
  by (cases vs) simp_all

lemma sorted_fst_lex:
  fixes ps :: "('a::linorder \<times> 'b::linorder) list"
  assumes "sorted ps"
  shows "sorted (map fst ps)"
proof -
  have "sorted_wrt (\<lambda>p q. fst p \<le> fst q) ps"
    using assms by (rule sorted_wrt_mono_rel [rotated]) (auto simp: less_eq_prod_def)
  then show ?thesis by (simp add: sorted_map)
qed

lemma index_records_keys:
  "map (\<lambda>d. d path) (index_records path db)
     = map (\<lambda>k. Some (Key k)) (map (fst \<circ> fst) (sort_key fst (index_entries path db)))"
proof -
  have "snd e path = Some (Key (fst (fst e)))"
    if "e \<in> set (sort_key fst (index_entries path db))" for e
    using that index_entries_iff [of "fst e" "snd e" path db] by simp
  then show ?thesis by (simp add: index_records_entries)
qed

lemma index_records_sorted:
  "sorted (map (fst \<circ> fst) (sort_key fst (index_entries path db)))"
proof -
  have "sorted (map fst (sort_key fst (index_entries path db)))" by (rule sorted_sort_key)
  then have "sorted (map fst (map fst (sort_key fst (index_entries path db))))"
    by (rule sorted_fst_lex)
  then show ?thesis by simp
qed

lemma snd_index_entries:
  "map snd (index_entries path db)
     = filter (\<lambda>d. key_of (d path) \<noteq> None \<and> key_of (d ''id'') \<noteq> None) db"
  by (induction db) (auto simp: index_entries_def split: option.splits)

lemma mset_index_records:
  "mset (index_records path db)
     = mset (filter (\<lambda>d. key_of (d path) \<noteq> None \<and> key_of (d ''id'') \<noteq> None) db)"
proof -
  have "mset (map snd (sort_key fst (index_entries path db)))
          = mset (map snd (index_entries path db))"
    by (simp only: mset_map mset_sort)
  then show ?thesis by (simp only: index_records_entries snd_index_entries)
qed

lemma takeWhile_digits:
  assumes "list_all is_digit ds" "rest = [] \<or> \<not> is_digit (hd rest)"
  shows "takeWhile is_digit (ds @ rest) = ds" "dropWhile is_digit (ds @ rest) = rest"
proof -
  from assms(2) have "takeWhile is_digit rest = []" "dropWhile is_digit rest = rest"
    by (cases rest; auto)+
  with assms(1) show "takeWhile is_digit (ds @ rest) = ds" "dropWhile is_digit (ds @ rest) = rest"
    by (simp_all add: list_all_iff takeWhile_append2 dropWhile_append2)
qed

lemma colon_not_digit: "\<not> is_digit CHR '':''"
  by (simp add: is_digit_def)

lemma match_loc_shape:
  assumes pre: "pre \<noteq> []" "\<not> is_digit (last pre)"
    and l: "l = u @ pre @ d1 @ '':'' @ d2 @ post" "d1 \<noteq> []" "d2 \<noteq> []"
      "list_all is_digit d1" "list_all is_digit d2"
  shows "match_loc pre post l = Some (d1, d2)"
proof -
  have r: "rev l = rev post @ rev d2 @ CHR '':'' # rev d1 @ rev pre @ rev u"
    by (simp add: l(1))
  have d2: "takeWhile is_digit (rev d2 @ CHR '':'' # rev d1 @ rev pre @ rev u) = rev d2"
    "dropWhile is_digit (rev d2 @ CHR '':'' # rev d1 @ rev pre @ rev u)
       = CHR '':'' # rev d1 @ rev pre @ rev u"
    using l(5) by (simp_all add: takeWhile_digits colon_not_digit)
  from pre have "hd (rev pre @ rev u) = last pre" by (simp add: hd_rev)
  with pre have nd: "rev pre @ rev u = [] \<or> \<not> is_digit (hd (rev pre @ rev u))" by simp
  have d1: "takeWhile is_digit (rev d1 @ rev pre @ rev u) = rev d1"
    "dropWhile is_digit (rev d1 @ rev pre @ rev u) = rev pre @ rev u"
    using l(4) takeWhile_digits [OF _ nd, of "rev d1"] by simp_all
  show ?thesis
    unfolding match_loc_def r
    by (simp add: Let_def d2 d1 l(2,3))
qed

lemma match_loc_Some:
  assumes "match_loc pre post l = Some (d1, d2)"
  shows "\<exists>u. l = u @ pre @ d1 @ '':'' @ d2 @ post" "d1 \<noteq> []" "d2 \<noteq> []"
    "list_all is_digit d1" "list_all is_digit d2"
proof -
  let ?r = "rev l"
  let ?r1 = "drop (length post) ?r"
  let ?r2 = "dropWhile is_digit ?r1"
  from assms have p: "take (length post) ?r = rev post" and n2: "takeWhile is_digit ?r1 \<noteq> []"
    by (auto simp: match_loc_def Let_def split: if_splits list.splits)
  from assms n2 p obtain r3 where r2: "?r2 = CHR '':'' # r3"
    by (auto simp: match_loc_def Let_def split: if_splits list.splits)
  let ?r4 = "dropWhile is_digit r3"
  from assms n2 p r2 have n1: "takeWhile is_digit r3 \<noteq> []"
    and q: "take (length pre) ?r4 = rev pre"
    and d: "d1 = rev (takeWhile is_digit r3)" "d2 = rev (takeWhile is_digit ?r1)"
    by (auto simp: match_loc_def Let_def split: if_splits)
  define t2 where "t2 = takeWhile is_digit ?r1"
  define t1 where "t1 = takeWhile is_digit r3"
  define r5 where "r5 = drop (length pre) ?r4"
  have e1: "?r = rev post @ ?r1" by (metis p append_take_drop_id)
  have e2: "?r1 = t2 @ CHR '':'' # r3" unfolding t2_def by (metis r2 takeWhile_dropWhile_id)
  have e3: "r3 = t1 @ ?r4" unfolding t1_def by simp
  have e4: "?r4 = rev pre @ r5" unfolding r5_def by (metis q append_take_drop_id)
  have "?r = rev post @ t2 @ CHR '':'' # t1 @ rev pre @ r5" by (metis e1 e2 e3 e4)
  then have "rev ?r = rev (rev post @ t2 @ CHR '':'' # t1 @ rev pre @ r5)" by (rule arg_cong)
  then have "l = rev r5 @ pre @ d1 @ '':'' @ d2 @ post"
    by (simp add: d t1_def t2_def)
  then show "\<exists>u. l = u @ pre @ d1 @ '':'' @ d2 @ post" by blast
  from n1 n2 d show "d1 \<noteq> []" "d2 \<noteq> []" by simp_all
  have "\<forall>c\<in>set (takeWhile is_digit xs). is_digit c" for xs
    by (auto dest: set_takeWhileD)
  with d show "list_all is_digit d1" "list_all is_digit d2" by (simp_all add: list_all_iff)
qed

lemma match_loc_iff:
  assumes "pre \<noteq> []" "\<not> is_digit (last pre)"
  shows "match_loc pre post l \<noteq> None \<longleftrightarrow> has_shape pre post l"
proof
  assume "match_loc pre post l \<noteq> None"
  then obtain d1 d2 where "match_loc pre post l = Some (d1, d2)" by auto
  from match_loc_Some [OF this] show "has_shape pre post l"
    unfolding has_shape_def by blast
next
  assume "has_shape pre post l"
  then obtain u d1 d2 where "l = u @ pre @ d1 @ '':'' @ d2 @ post" "d1 \<noteq> []" "d2 \<noteq> []"
    "list_all is_digit d1" "list_all is_digit d2"
    unfolding has_shape_def by blast
  from match_loc_shape [OF assms this] show "match_loc pre post l \<noteq> None" by simp
qed

lemma anon_iff: "anon l \<noteq> None \<longleftrightarrow> has_shape '', <anonymous>:'' '')'' l"
  unfolding anon_def by (rule match_loc_iff) (simp_all add: is_digit_def)

lemma func_iff: "func l \<noteq> None \<longleftrightarrow> has_shape ''> Function:'' '''' l"
  unfolding func_def by (rule match_loc_iff) (simp_all add: is_digit_def)

lemma extract_lines_iff:
  "extract_lines ls \<noteq> None \<longleftrightarrow>
     (\<exists>l\<in>set ls. has_shape '', <anonymous>:'' '')'' l \<or> has_shape ''> Function:'' '''' l)"
proof (induction ls)
  case Nil
  then show ?case by simp
next
  case (Cons l ls)
  show ?case
  proof (cases "anon l")
    case (Some m)
    with anon_iff [of l] show ?thesis by (auto split: prod.splits)
  next
    case None
    note a = this
    show ?thesis
    proof (cases "func l")
      case (Some m)
      with a func_iff [of l] show ?thesis by (auto split: prod.splits)
    next
      case None
      with a anon_iff [of l] func_iff [of l] Cons show ?thesis by simp
    qed
  qed
qed

lemma later_extract_js_error_loc:
  "(\<exists>l\<in>set (split_lines (stack_of e)).
       has_shape '', <anonymous>:'' '')'' l \<or> has_shape ''> Function:'' '''' l)
     \<longrightarrow> (\<exists>p. extract_js_error_loc e = Some p \<and> handle_js_error e = Runtime_error (message e) (Some p))"
  "\<not> (\<exists>l\<in>set (split_lines (stack_of e)).
       has_shape '', <anonymous>:'' '')'' l \<or> has_shape ''> Function:'' '''' l)
     \<longrightarrow> extract_js_error_loc e = None \<and> handle_js_error e = Console_error (stack e)"
  using extract_lines_iff [of "split_lines (stack_of e)"]
  by (auto simp: extract_js_error_loc_def handle_js_error_def)

section \<open>Classification of the builtin types\<close>

text \<open>
  C7. Every builtin type that \<open>Type._create_builtin\<close> constructs from a type token has flags,
  element count and name that agree with the token: \<open>float\<close>, \<open>int\<close>, \<open>bool\<close> are scalars of
  length 1; \<open>vecN\<close>, \<open>ivecN\<close>, \<open>bvecN\<close> are vectors of length N; \<open>matN\<close> is a matrix of length
  N; the element kind is float for float, vec and mat types, int for int and ivec types,
  bool for bool and bvec types; \<open>void\<close>, \<open>sampler2D\<close> and \<open>samplerCube\<close> are none of the three,
  of length 0 and of no element kind; the name is the GLSL keyword. The rows below are the
  eighteen types of \<open>Types\<close>, in order, each as
  (token, name, scalar, vector, matrix, length, element kind).
\<close>

theorem builtin_type_classification:
  "map (\<lambda>d. let t = type_type d in
          (tid t, name t, is_scalar t, is_vec t, is_mat t, tlength t, elem_kinds t))
     (Types Type_create_builtin)
   = [(T_VOID, Some ''void'', False, False, False, 0, []),
      (T_FLOAT, Some ''float'', True, False, False, 1, [KFloat]),
      (T_INT, Some ''int'', True, False, False, 1, [KInt]),
      (T_BOOL, Some ''bool'', True, False, False, 1, [KBool]),
      (T_VEC2, Some ''vec2'', False, True, False, 2, [KFloat]),
      (T_VEC3, Some ''vec3'', False, True, False, 3, [KFloat]),
      (T_VEC4, Some ''vec4'', False, True, False, 4, [KFloat]),
      (T_BVEC2, Some ''bvec2'', False, True, False, 2, [KBool]),
      (T_BVEC3, Some ''bvec3'', False, True, False, 3, [KBool]),
      (T_BVEC4, Some ''bvec4'', False, True, False, 4, [KBool]),
      (T_IVEC2, Some ''ivec2'', False, True, False, 2, [KInt]),
      (T_IVEC3, Some ''ivec3'', False, True, False, 3, [KInt]),
      (T_IVEC4, Some ''ivec4'', False, True, False, 4, [KInt]),
      (T_MAT2, Some ''mat2'', False, False, True, 2, [KFloat]),
      (T_MAT3, Some ''mat3'', False, False, True, 3, [KFloat]),
      (T_MAT4, Some ''mat4'', False, False, True, 4, [KFloat]),
      (T_SAMPLER2D, Some ''sampler2D'', False, False, False, 0, []),
      (T_SAMPLERCUBE, Some ''samplerCube'', False, False, False, 0, [])]"
  by (simp add: Type_create_builtin_def btypetoks_def builtin_decl_def new_Type_def elem_kinds_def
      Type_name_def Type_is_scalar_def Type_is_vec_def
      Type_is_mat_def Type_is_int_def Type_is_float_def Type_is_bool_def Type_length_def)

section \<open>Generic expansion\<close>

text \<open>
  C3. Every function registered through \<open>define_builtin_gentype_function\<close> has exactly one
  entry for each of \<open>float\<close>, \<open>vec2\<close>, \<open>vec3\<close> and \<open>vec4\<close>: the four instances have four
  different signatures, each signature is held by exactly one entry of \<open>Functions\<close> (and by
  \<open>FunctionMap\<close>), and that entry is the instance, with the concrete type in every generic
  parameter slot and in the return type when it is generic. No entry of that name has a
  parameter of another type: every entry of the name is such an instance at one of the
  four types, and all its parameter types are among the four. \<open>FunctionMap\<close> holds nothing
  that \<open>Functions\<close> does not hold, and it has no \<open>sin(mat2)\<close>.
\<close>

theorem gentype_expansion_complete:
  "\<exists>ex. builtins dtn = Some ex \<and>
     (\<forall>c\<in>set function_calls. \<forall>r n ps. c = Gentype r n ps \<longrightarrow>
        distinct (map (\<lambda>g. signature (gen_instance g r n ps)) [T_FLOAT, T_VEC2, T_VEC3, T_VEC4]) \<and>
        (\<forall>g\<in>set [T_FLOAT, T_VEC2, T_VEC3, T_VEC4].
           filter (\<lambda>f. signature f = signature (gen_instance g r n ps)) (Functions ex)
             = [gen_instance g r n ps] \<and>
           FunctionMap ex (signature (gen_instance g r n ps)) = Some (gen_instance g r n ps)) \<and>
        (\<forall>f\<in>set (Functions ex). fname f = n \<longrightarrow>
           (\<exists>r' ps' g. Gentype r' n ps' \<in> set function_calls \<and>
              g \<in> set [T_FLOAT, T_VEC2, T_VEC3, T_VEC4] \<and> f = gen_instance g r' n ps') \<and>
           list_all (\<lambda>p. type_token (ptype p) \<in> set [T_FLOAT, T_VEC2, T_VEC3, T_VEC4])
             (parameters f))) \<and>
     (\<forall>s f. FunctionMap ex s = Some f \<longrightarrow> f \<in> set (Functions ex) \<and> signature f = s) \<and>
     FunctionMap ex ''sin(mat2)'' = None"
proof -
  from builtins_function_tables [of dtn] obtain ex where ex: "builtins dtn = Some ex"
    "Functions ex = Functions function_tables" "FunctionMap ex = FunctionMap function_tables"
    by blast
  have "distinct (map (\<lambda>g. signature (gen_instance g r n ps)) gentype_toks) \<and>
        (\<forall>g\<in>set gentype_toks.
           filter (\<lambda>f. signature f = signature (gen_instance g r n ps)) (Functions ex)
             = [gen_instance g r n ps] \<and>
           FunctionMap ex (signature (gen_instance g r n ps)) = Some (gen_instance g r n ps)) \<and>
        (\<forall>f\<in>set (Functions ex). fname f = n \<longrightarrow>
           (\<exists>r' ps' g. Gentype r' n ps' \<in> set function_calls \<and> g \<in> set gentype_toks \<and>
              f = gen_instance g r' n ps') \<and>
           list_all (\<lambda>p. type_token (ptype p) \<in> set gentype_toks) (parameters f))"
    if c: "c \<in> set function_calls" "c = Gentype r n ps" for c r n ps
  proof (intro conjI ballI impI)
    show "distinct (map (\<lambda>g. signature (gen_instance g r n ps)) gentype_toks)"
      by (rule gentype_call_closed(1) [OF c])
  next
    fix g assume g: "g \<in> set gentype_toks"
    with c have "gen_instance g r n ps \<in> set (call_protos c)" by simp
    with c(1) have inst: "gen_instance g r n ps \<in> set all_protos"
      by (auto simp: all_protos_def)
    show "filter (\<lambda>f. signature f = signature (gen_instance g r n ps)) (Functions ex)
            = [gen_instance g r n ps]"
      unfolding ex(2) by (rule registered_proto(1) [OF inst all_protos_agree [OF inst]])
    show "FunctionMap ex (signature (gen_instance g r n ps)) = Some (gen_instance g r n ps)"
      unfolding ex(3) by (rule registered_proto(2) [OF inst all_protos_agree [OF inst]])
  next
    fix f assume f: "f \<in> set (Functions ex)" "fname f = n"
    from f(1) have "f \<in> set all_protos" unfolding ex(2) by (rule Functions_function_tables)
    then obtain c' where c': "c' \<in> set function_calls" "f \<in> set (call_protos c')"
      "fname f = call_name c'" by (rule all_protos_call)
    from gentype_call_closed(2) [OF c c'(1)] c'(3) f(2)
    obtain r' ps' where g': "c' = Gentype r' n ps'" "list_all (\<lambda>(t, x). is_gentype_slot t) ps'"
      by auto
    from c'(2) g'(1) obtain g where g: "g \<in> set gentype_toks" "f = gen_instance g r' n ps'"
      by auto
    from c'(1) g'(1) g
    show "\<exists>r' ps' g. Gentype r' n ps' \<in> set function_calls \<and> g \<in> set gentype_toks \<and>
            f = gen_instance g r' n ps'"
      by blast
    from gen_instance_parameters [OF g'(2) g(1)] g(2)
    show "list_all (\<lambda>p. type_token (ptype p) \<in> set gentype_toks) (parameters f)" by simp
  qed
  note inst = this [unfolded gentype_toks_eq]
  have calls: "\<forall>c\<in>set function_calls. \<forall>r n ps. c = Gentype r n ps \<longrightarrow>
        distinct (map (\<lambda>g. signature (gen_instance g r n ps)) [T_FLOAT, T_VEC2, T_VEC3, T_VEC4]) \<and>
        (\<forall>g\<in>set [T_FLOAT, T_VEC2, T_VEC3, T_VEC4].
           filter (\<lambda>f. signature f = signature (gen_instance g r n ps)) (Functions ex)
             = [gen_instance g r n ps] \<and>
           FunctionMap ex (signature (gen_instance g r n ps)) = Some (gen_instance g r n ps)) \<and>
        (\<forall>f\<in>set (Functions ex). fname f = n \<longrightarrow>
           (\<exists>r' ps' g. Gentype r' n ps' \<in> set function_calls \<and>
              g \<in> set [T_FLOAT, T_VEC2, T_VEC3, T_VEC4] \<and> f = gen_instance g r' n ps') \<and>
           list_all (\<lambda>p. type_token (ptype p) \<in> set [T_FLOAT, T_VEC2, T_VEC3, T_VEC4])
             (parameters f))"
  proof (intro ballI allI impI)
    fix c r n ps assume "c \<in> set function_calls" "c = Gentype r n ps"
    then show "distinct (map (\<lambda>g. signature (gen_instance g r n ps)) [T_FLOAT, T_VEC2, T_VEC3, T_VEC4]) \<and>
        (\<forall>g\<in>set [T_FLOAT, T_VEC2, T_VEC3, T_VEC4].
           filter (\<lambda>f. signature f = signature (gen_instance g r n ps)) (Functions ex)
             = [gen_instance g r n ps] \<and>
           FunctionMap ex (signature (gen_instance g r n ps)) = Some (gen_instance g r n ps)) \<and>
        (\<forall>f\<in>set (Functions ex). fname f = n \<longrightarrow>
           (\<exists>r' ps' g. Gentype r' n ps' \<in> set function_calls \<and>
              g \<in> set [T_FLOAT, T_VEC2, T_VEC3, T_VEC4] \<and> f = gen_instance g r' n ps') \<and>
           list_all (\<lambda>p. type_token (ptype p) \<in> set [T_FLOAT, T_VEC2, T_VEC3, T_VEC4])
             (parameters f))"
      by (rule inst)
  qed
  have look: "f \<in> set (Functions ex) \<and> signature f = s" if "FunctionMap ex s = Some f" for s f
    using that fn_tables_ok_lookup [OF fn_tables_ok_function_tables, of s f]
    unfolding ex(2) ex(3) by (rule rev_iffD1)
  have none: "FunctionMap ex ''sin(mat2)'' = None"
  proof (rule ccontr)
    assume "FunctionMap ex ''sin(mat2)'' \<noteq> None"
    then obtain f where "FunctionMap ex ''sin(mat2)'' = Some f" by blast
    from look [OF this] have "f \<in> set all_protos" "signature f = ''sin(mat2)''"
      unfolding ex(2) by (simp_all only: Functions_function_tables)
    with list_allD [OF no_sin_mat2] show False by blast
  qed
  have look': "\<forall>s f. FunctionMap ex s = Some f \<longrightarrow> f \<in> set (Functions ex) \<and> signature f = s"
    using look by blast
  show ?thesis
    by (rule exI [of _ ex]) (intro conjI ex(1) calls look' none)
qed

theorem gentype_expansion_complete_witness:
  "Gentype None ''sin'' [(None, ''angle'')] \<in> set function_calls \<and>
   (\<exists>ex. builtins token_name = Some ex \<and>
      filter (\<lambda>f. signature f = ''sin(float)'') (Functions ex)
        = [\<lparr> fret = builtin_decl T_FLOAT, fname = ''sin'',
             parameters = [\<lparr> ptype = builtin_decl T_FLOAT, pname = ''angle'' \<rparr>] \<rparr>] \<and>
      filter (\<lambda>f. signature f = ''sin(vec2)'') (Functions ex)
        = [\<lparr> fret = builtin_decl T_VEC2, fname = ''sin'',
             parameters = [\<lparr> ptype = builtin_decl T_VEC2, pname = ''angle'' \<rparr>] \<rparr>] \<and>
      filter (\<lambda>f. signature f = ''sin(vec3)'') (Functions ex)
        = [\<lparr> fret = builtin_decl T_VEC3, fname = ''sin'',
             parameters = [\<lparr> ptype = builtin_decl T_VEC3, pname = ''angle'' \<rparr>] \<rparr>] \<and>
      filter (\<lambda>f. signature f = ''sin(vec4)'') (Functions ex)
        = [\<lparr> fret = builtin_decl T_VEC4, fname = ''sin'',
             parameters = [\<lparr> ptype = builtin_decl T_VEC4, pname = ''angle'' \<rparr>] \<rparr>] \<and>
      FunctionMap ex ''sin(vec3)''
        = Some \<lparr> fret = builtin_decl T_VEC3, fname = ''sin'',
                 parameters = [\<lparr> ptype = builtin_decl T_VEC3, pname = ''angle'' \<rparr>] \<rparr> \<and>
      FunctionMap ex ''sin(mat2)'' = None \<and>
      (\<forall>f\<in>set (Functions ex). fname f = ''sin'' \<longrightarrow>
         list_all (\<lambda>p. type_token (ptype p) \<in> set [T_FLOAT, T_VEC2, T_VEC3, T_VEC4])
           (parameters f)))"
proof -
  let ?c = "Gentype None ''sin'' [(None, ''angle'')]"
  let ?p = "\<lambda>g. \<lparr> fret = builtin_decl g, fname = ''sin'',
                  parameters = [\<lparr> ptype = builtin_decl g, pname = ''angle'' \<rparr>] \<rparr>"
  have c: "?c \<in> set function_calls" by (simp add: function_calls_def)
  have i: "gen_instance g None ''sin'' [(None, ''angle'')] = ?p g" for g
    by (simp add: gen_instance_def proto_def fill_def)
  have s: "signature (?p T_FLOAT) = ''sin(float)''" "signature (?p T_VEC2) = ''sin(vec2)''"
    "signature (?p T_VEC3) = ''sin(vec3)''" "signature (?p T_VEC4) = ''sin(vec4)''"
    by (simp_all add: signature_def js_str_def Type_name_def)
  from gentype_expansion_complete [of token_name] obtain ex where ex: "builtins token_name = Some ex"
    and all: "\<forall>c\<in>set function_calls. \<forall>r n ps. c = Gentype r n ps \<longrightarrow>
        distinct (map (\<lambda>g. signature (gen_instance g r n ps)) [T_FLOAT, T_VEC2, T_VEC3, T_VEC4]) \<and>
        (\<forall>g\<in>set [T_FLOAT, T_VEC2, T_VEC3, T_VEC4].
           filter (\<lambda>f. signature f = signature (gen_instance g r n ps)) (Functions ex)
             = [gen_instance g r n ps] \<and>
           FunctionMap ex (signature (gen_instance g r n ps)) = Some (gen_instance g r n ps)) \<and>
        (\<forall>f\<in>set (Functions ex). fname f = n \<longrightarrow>
           (\<exists>r' ps' g. Gentype r' n ps' \<in> set function_calls \<and>
              g \<in> set [T_FLOAT, T_VEC2, T_VEC3, T_VEC4] \<and> f = gen_instance g r' n ps') \<and>
           list_all (\<lambda>p. type_token (ptype p) \<in> set [T_FLOAT, T_VEC2, T_VEC3, T_VEC4])
             (parameters f))"
    and none: "FunctionMap ex ''sin(mat2)'' = None"
    by blast
  note sin = bspec [OF all c, rule_format, OF refl, unfolded i]
  from sin have four: "\<forall>g\<in>set [T_FLOAT, T_VEC2, T_VEC3, T_VEC4].
           filter (\<lambda>f. signature f = signature (?p g)) (Functions ex) = [?p g] \<and>
           FunctionMap ex (signature (?p g)) = Some (?p g)"
    by (rule conjunct1 [OF conjunct2])
  have only: "\<forall>f\<in>set (Functions ex). fname f = ''sin'' \<longrightarrow>
         list_all (\<lambda>p. type_token (ptype p) \<in> set [T_FLOAT, T_VEC2, T_VEC3, T_VEC4])
           (parameters f)"
  proof (intro ballI impI)
    fix f assume "f \<in> set (Functions ex)" "fname f = ''sin''"
    from sin [THEN conjunct2, THEN conjunct2, rule_format, OF this]
    show "list_all (\<lambda>p. type_token (ptype p) \<in> set [T_FLOAT, T_VEC2, T_VEC3, T_VEC4])
           (parameters f)"
      by (rule conjunct2)
  qed
  have m: "T_FLOAT \<in> set [T_FLOAT, T_VEC2, T_VEC3, T_VEC4]" "T_VEC2 \<in> set [T_FLOAT, T_VEC2, T_VEC3, T_VEC4]"
    "T_VEC3 \<in> set [T_FLOAT, T_VEC2, T_VEC3, T_VEC4]" "T_VEC4 \<in> set [T_FLOAT, T_VEC2, T_VEC3, T_VEC4]"
    by simp_all
  note e1 = bspec [OF four m(1), unfolded s]
  note e2 = bspec [OF four m(2), unfolded s]
  note e3 = bspec [OF four m(3), unfolded s]
  note e4 = bspec [OF four m(4), unfolded s]
  show ?thesis
    by (intro conjI c exI [of _ ex] ex none only e1 [THEN conjunct1] e2 [THEN conjunct1]
        e3 [THEN conjunct1] e3 [THEN conjunct2] e4 [THEN conjunct1])
qed

text \<open>
  C4. Every function registered through \<open>define_builtin_relvec_function\<close> has exactly three
  entries, one per arity index 0, 1, 2: the three instances have three different
  signatures, each held by exactly one entry of \<open>Functions\<close>, and that entry has every
  family marker replaced by the member of its own family at the same index. Every entry
  of that name is such an index-aligned instance: none mixes indices.
\<close>

theorem relvec_expansion_lockstep:
  "\<exists>ex. builtins dtn = Some ex \<and>
     (\<forall>c\<in>set function_calls. \<forall>r n ps. c = Relvec r n ps \<longrightarrow>
        distinct (map (\<lambda>i. signature (relvec_instance i r n ps)) [0, 1, 2]) \<and>
        (\<forall>i\<in>{0, 1, 2}.
           filter (\<lambda>f. signature f = signature (relvec_instance i r n ps)) (Functions ex)
             = [relvec_instance i r n ps]) \<and>
        (\<forall>f\<in>set (Functions ex). fname f = n \<longrightarrow>
           (\<exists>r' ps'. Relvec r' n ps' \<in> set function_calls \<and>
              (\<exists>i\<in>{0, 1, 2}. f = relvec_instance i r' n ps'))))"
proof -
  from builtins_function_tables [of dtn] obtain ex where ex: "builtins dtn = Some ex"
    "Functions ex = Functions function_tables" "FunctionMap ex = FunctionMap function_tables"
    by blast
  have "distinct (map (\<lambda>i. signature (relvec_instance i r n ps)) [0, 1, 2]) \<and>
        (\<forall>i\<in>{0, 1, 2}.
           filter (\<lambda>f. signature f = signature (relvec_instance i r n ps)) (Functions ex)
             = [relvec_instance i r n ps]) \<and>
        (\<forall>f\<in>set (Functions ex). fname f = n \<longrightarrow>
           (\<exists>r' ps'. Relvec r' n ps' \<in> set function_calls \<and>
              (\<exists>i\<in>{0, 1, 2}. f = relvec_instance i r' n ps')))"
    if c: "c \<in> set function_calls" "c = Relvec r n ps" for c r n ps
  proof (intro conjI ballI impI)
    show "distinct (map (\<lambda>i. signature (relvec_instance i r n ps)) [0, 1, 2])"
      by (rule relvec_call_closed(1) [OF c])
  next
    fix i :: nat assume i: "i \<in> {0, 1, 2}"
    with c have "relvec_instance i r n ps \<in> set (call_protos c)" by auto
    with c(1) have inst: "relvec_instance i r n ps \<in> set all_protos"
      by (auto simp: all_protos_def)
    show "filter (\<lambda>f. signature f = signature (relvec_instance i r n ps)) (Functions ex)
            = [relvec_instance i r n ps]"
      unfolding ex(2) by (rule registered_proto(1) [OF inst all_protos_agree [OF inst]])
  next
    fix f assume f: "f \<in> set (Functions ex)" "fname f = n"
    from f(1) have "f \<in> set all_protos" unfolding ex(2) by (rule Functions_function_tables)
    then obtain c' where c': "c' \<in> set function_calls" "f \<in> set (call_protos c')"
      "fname f = call_name c'" by (rule all_protos_call)
    from relvec_call_closed(2) [OF c c'(1)] c'(3) f(2)
    obtain r' ps' where r': "c' = Relvec r' n ps'" by auto
    from c'(2) r' have "\<exists>i\<in>{0, 1, 2}. f = relvec_instance i r' n ps'" by auto
    with c'(1) r'
    show "\<exists>r' ps'. Relvec r' n ps' \<in> set function_calls \<and>
            (\<exists>i\<in>{0, 1, 2}. f = relvec_instance i r' n ps')"
      by blast
  qed
  with ex(1) show ?thesis by blast
qed

theorem relvec_expansion_lockstep_witness:
  "Relvec (Fam ''bvec'') ''lessThan'' [(Fam ''vec'', ''x''), (Fam ''vec'', ''y'')] \<in> set function_calls \<and>
   (1::nat) \<in> {0, 1, 2} \<and>
   (\<exists>ex. builtins token_name = Some ex \<and>
      filter (\<lambda>f. signature f = ''lessThan(vec3,vec3)'') (Functions ex)
        = [\<lparr> fret = builtin_decl T_BVEC3, fname = ''lessThan'',
             parameters = [\<lparr> ptype = builtin_decl T_VEC3, pname = ''x'' \<rparr>,
                           \<lparr> ptype = builtin_decl T_VEC3, pname = ''y'' \<rparr>] \<rparr>])"
proof -
  let ?c = "Relvec (Fam ''bvec'') ''lessThan'' [(Fam ''vec'', ''x''), (Fam ''vec'', ''y'')]"
  have c: "?c \<in> set function_calls" by (simp add: function_calls_def)
  have i: "relvec_instance 1 (Fam ''bvec'') ''lessThan'' [(Fam ''vec'', ''x''), (Fam ''vec'', ''y'')]
             = \<lparr> fret = builtin_decl T_BVEC3, fname = ''lessThan'',
                 parameters = [\<lparr> ptype = builtin_decl T_VEC3, pname = ''x'' \<rparr>,
                               \<lparr> ptype = builtin_decl T_VEC3, pname = ''y'' \<rparr>] \<rparr>"
    by (simp add: relvec_instance_def proto_def family_def)
  have s: "signature \<lparr> fret = builtin_decl T_BVEC3, fname = ''lessThan'',
                 parameters = [\<lparr> ptype = builtin_decl T_VEC3, pname = ''x'' \<rparr>,
                               \<lparr> ptype = builtin_decl T_VEC3, pname = ''y'' \<rparr>] \<rparr>
             = ''lessThan(vec3,vec3)''"
    by (simp add: signature_def js_str_def Type_name_def)
  from relvec_expansion_lockstep [of token_name] obtain ex where ex: "builtins token_name = Some ex"
    and all: "\<forall>c\<in>set function_calls. \<forall>r n ps. c = Relvec r n ps \<longrightarrow>
        distinct (map (\<lambda>i. signature (relvec_instance i r n ps)) [0, 1, 2]) \<and>
        (\<forall>i\<in>{0, 1, 2}.
           filter (\<lambda>f. signature f = signature (relvec_instance i r n ps)) (Functions ex)
             = [relvec_instance i r n ps]) \<and>
        (\<forall>f\<in>set (Functions ex). fname f = n \<longrightarrow>
           (\<exists>r' ps'. Relvec r' n ps' \<in> set function_calls \<and>
              (\<exists>i\<in>{0, 1, 2}. f = relvec_instance i r' n ps')))"
    by blast
  from bspec [OF all c] have "\<forall>i\<in>{0, 1, 2}.
           filter (\<lambda>f. signature f = signature (relvec_instance i (Fam ''bvec'') ''lessThan''
                          [(Fam ''vec'', ''x''), (Fam ''vec'', ''y'')])) (Functions ex)
             = [relvec_instance i (Fam ''bvec'') ''lessThan'' [(Fam ''vec'', ''x''), (Fam ''vec'', ''y'')]]"
    by blast
  then have "filter (\<lambda>f. signature f = signature (relvec_instance 1 (Fam ''bvec'') ''lessThan''
                          [(Fam ''vec'', ''x''), (Fam ''vec'', ''y'')])) (Functions ex)
             = [relvec_instance 1 (Fam ''bvec'') ''lessThan'' [(Fam ''vec'', ''x''), (Fam ''vec'', ''y'')]]"
    by simp
  then have "filter (\<lambda>f. signature f = ''lessThan(vec3,vec3)'') (Functions ex)
        = [\<lparr> fret = builtin_decl T_BVEC3, fname = ''lessThan'',
             parameters = [\<lparr> ptype = builtin_decl T_VEC3, pname = ''x'' \<rparr>,
                           \<lparr> ptype = builtin_decl T_VEC3, pname = ''y'' \<rparr>] \<rparr>]"
    unfolding i s .
  with ex c show ?thesis by simp
qed

section \<open>Operator entries\<close>

text \<open>
  C1. The operator catalogue holds an entry for \<open>*\<close> with operands \<open>matN\<close> and \<open>vecN\<close> and a
  separate entry for \<open>*\<close> with operands \<open>vecN\<close> and \<open>matN\<close>, for N = 2, 3, 4, both in
  \<open>OperatorMap\<close> (under the signatures \<open>*(matN,vecN)\<close> and \<open>*(vecN,matN)\<close>) and in \<open>Operators\<close>.
  The return type of \<open>matN * vecN\<close> is \<open>vecN\<close>. The return type of \<open>vecN * matN\<close> is \<open>matN\<close>, the
  generated operand's type, and not \<open>vecN\<close>.
\<close>

theorem matrix_vector_product_entries:
  "\<exists>cat. builtins token_name = Some cat \<and>
     OperatorMap cat ''*(mat2,vec2)'' = Some (star_entry T_MAT2 T_VEC2 T_VEC2) \<and>
     OperatorMap cat ''*(mat3,vec3)'' = Some (star_entry T_MAT3 T_VEC3 T_VEC3) \<and>
     OperatorMap cat ''*(mat4,vec4)'' = Some (star_entry T_MAT4 T_VEC4 T_VEC4) \<and>
     OperatorMap cat ''*(vec2,mat2)'' = Some (star_entry T_VEC2 T_MAT2 T_MAT2) \<and>
     OperatorMap cat ''*(vec3,mat3)'' = Some (star_entry T_VEC3 T_MAT3 T_MAT3) \<and>
     OperatorMap cat ''*(vec4,mat4)'' = Some (star_entry T_VEC4 T_MAT4 T_MAT4) \<and>
     filter (\<lambda>opr. op opr = T_STAR \<and> lhs opr = Some (new_Type T_MAT2) \<and> rhs opr = Some (new_Type T_VEC2))
       (Operators cat) = [star_entry T_MAT2 T_VEC2 T_VEC2] \<and>
     filter (\<lambda>opr. op opr = T_STAR \<and> lhs opr = Some (new_Type T_MAT3) \<and> rhs opr = Some (new_Type T_VEC3))
       (Operators cat) = [star_entry T_MAT3 T_VEC3 T_VEC3] \<and>
     filter (\<lambda>opr. op opr = T_STAR \<and> lhs opr = Some (new_Type T_MAT4) \<and> rhs opr = Some (new_Type T_VEC4))
       (Operators cat) = [star_entry T_MAT4 T_VEC4 T_VEC4] \<and>
     filter (\<lambda>opr. op opr = T_STAR \<and> lhs opr = Some (new_Type T_VEC2) \<and> rhs opr = Some (new_Type T_MAT2))
       (Operators cat) = [star_entry T_VEC2 T_MAT2 T_MAT2] \<and>
     filter (\<lambda>opr. op opr = T_STAR \<and> lhs opr = Some (new_Type T_VEC3) \<and> rhs opr = Some (new_Type T_MAT3))
       (Operators cat) = [star_entry T_VEC3 T_MAT3 T_MAT3] \<and>
     filter (\<lambda>opr. op opr = T_STAR \<and> lhs opr = Some (new_Type T_VEC4) \<and> rhs opr = Some (new_Type T_MAT4))
       (Operators cat) = [star_entry T_VEC4 T_MAT4 T_MAT4]"
proof -
  from builtins_operators [of token_name] obtain cat where cat: "builtins token_name = Some cat"
    "Operators cat = map snd (all_operators token_name)"
    "\<And>k. OperatorMap cat k =
        fold (\<lambda>so found. if fst so = k then Some (snd so) else found) (all_operators token_name) None"
    by blast
  have "OperatorMap cat ''*(mat2,vec2)'' = Some (star_entry T_MAT2 T_VEC2 T_VEC2) \<and>
        OperatorMap cat ''*(mat3,vec3)'' = Some (star_entry T_MAT3 T_VEC3 T_VEC3) \<and>
        OperatorMap cat ''*(mat4,vec4)'' = Some (star_entry T_MAT4 T_VEC4 T_VEC4) \<and>
        OperatorMap cat ''*(vec2,mat2)'' = Some (star_entry T_VEC2 T_MAT2 T_MAT2) \<and>
        OperatorMap cat ''*(vec3,mat3)'' = Some (star_entry T_VEC3 T_MAT3 T_MAT3) \<and>
        OperatorMap cat ''*(vec4,mat4)'' = Some (star_entry T_VEC4 T_MAT4 T_MAT4) \<and>
        filter (\<lambda>opr. op opr = T_STAR \<and> lhs opr = Some (new_Type T_MAT2) \<and> rhs opr = Some (new_Type T_VEC2))
          (Operators cat) = [star_entry T_MAT2 T_VEC2 T_VEC2] \<and>
        filter (\<lambda>opr. op opr = T_STAR \<and> lhs opr = Some (new_Type T_MAT3) \<and> rhs opr = Some (new_Type T_VEC3))
          (Operators cat) = [star_entry T_MAT3 T_VEC3 T_VEC3] \<and>
        filter (\<lambda>opr. op opr = T_STAR \<and> lhs opr = Some (new_Type T_MAT4) \<and> rhs opr = Some (new_Type T_VEC4))
          (Operators cat) = [star_entry T_MAT4 T_VEC4 T_VEC4] \<and>
        filter (\<lambda>opr. op opr = T_STAR \<and> lhs opr = Some (new_Type T_VEC2) \<and> rhs opr = Some (new_Type T_MAT2))
          (Operators cat) = [star_entry T_VEC2 T_MAT2 T_MAT2] \<and>
        filter (\<lambda>opr. op opr = T_STAR \<and> lhs opr = Some (new_Type T_VEC3) \<and> rhs opr = Some (new_Type T_MAT3))
          (Operators cat) = [star_entry T_VEC3 T_MAT3 T_MAT3] \<and>
        filter (\<lambda>opr. op opr = T_STAR \<and> lhs opr = Some (new_Type T_VEC4) \<and> rhs opr = Some (new_Type T_MAT4))
          (Operators cat) = [star_entry T_VEC4 T_MAT4 T_MAT4]"
    by (simp only: cat(2) cat(3) star_lookup star_entries simp_thms)
  with cat(1) show ?thesis by blast
qed

text \<open>
  C5. A registration with no explicit return type gives every operator it stores the type
  of the generated operand as return type, and one with an explicit return type gives that
  type: the entries appended to \<open>Operators\<close> are, in loop order, one per operator token and
  generated type, with that return type. In the catalogue every entry of a relational
  operator (\<open><\<close>, \<open>>\<close>, \<open><=\<close>, \<open>>=\<close>) and of an equality operator (\<open>==\<close>, \<open>!=\<close>), in \<open>Operators\<close> and in
  \<open>OperatorMap\<close>, has return type \<open>bool\<close>; there are 32 such entries.
\<close>

theorem operator_return_types:
  "(define_builtin_bin_operator_gen dtn rettype optypes l r gens ex = Some ex' \<longrightarrow>
      (\<exists>new. Operators ex' = Operators ex @ new \<and>
         map (\<lambda>opr. (op opr, Some (ret opr))) new
           = map (\<lambda>(opt, g). (opt, builtin_type_of ex (fill g rettype))) (List.product optypes gens))) \<and>
   (define_builtin_unary_operator_gen dtn rettype optypes e gens ex = Some ex'' \<longrightarrow>
      (\<exists>new. Operators ex'' = Operators ex @ new \<and>
         map (\<lambda>opr. (op opr, Some (ret opr))) new
           = map (\<lambda>(opt, g). (opt, builtin_type_of ex (fill g rettype))) (List.product optypes gens))) \<and>
   (\<exists>cat. builtins dtn = Some cat \<and>
      (\<forall>opr\<in>set (Operators cat). op opr \<in> set rel_eq_ops \<longrightarrow> ret opr = new_Type T_BOOL) \<and>
      (\<forall>sig opr. OperatorMap cat sig = Some opr \<longrightarrow> op opr \<in> set rel_eq_ops \<longrightarrow>
         ret opr = new_Type T_BOOL) \<and>
      length (filter (\<lambda>opr. op opr \<in> set rel_eq_ops) (Operators cat)) = 32)"
proof (intro conjI impI)
  assume "define_builtin_bin_operator_gen dtn rettype optypes l r gens ex = Some ex'"
  then show "\<exists>new. Operators ex' = Operators ex @ new \<and>
         map (\<lambda>opr. (op opr, Some (ret opr))) new
           = map (\<lambda>(opt, g). (opt, builtin_type_of ex (fill g rettype))) (List.product optypes gens)"
    by (rule define_builtin_bin_operator_gen_ret)
next
  assume "define_builtin_unary_operator_gen dtn rettype optypes e gens ex = Some ex''"
  then show "\<exists>new. Operators ex'' = Operators ex @ new \<and>
         map (\<lambda>opr. (op opr, Some (ret opr))) new
           = map (\<lambda>(opt, g). (opt, builtin_type_of ex (fill g rettype))) (List.product optypes gens)"
    by (rule define_builtin_unary_operator_gen_ret)
next
  from builtins_operators [of dtn] obtain cat where cat: "builtins dtn = Some cat"
    "Operators cat = map snd (all_operators dtn)"
    "\<And>k. OperatorMap cat k =
        fold (\<lambda>so found. if fst so = k then Some (snd so) else found) (all_operators dtn) None"
    by blast
  have bool: "ret opr = new_Type T_BOOL"
    if "opr \<in> snd ` set (all_operators dtn)" "op opr \<in> set rel_eq_ops" for opr
    using that list_allD [OF all_operators_bool [of dtn]] by auto
  have "\<forall>opr\<in>set (Operators cat). op opr \<in> set rel_eq_ops \<longrightarrow> ret opr = new_Type T_BOOL"
    using bool by (simp add: cat(2))
  moreover have "\<forall>sig opr. OperatorMap cat sig = Some opr \<longrightarrow> op opr \<in> set rel_eq_ops \<longrightarrow>
         ret opr = new_Type T_BOOL"
  proof (intro allI impI)
    fix sig opr assume "OperatorMap cat sig = Some opr" "op opr \<in> set rel_eq_ops"
    with fold_last_match [of sig "all_operators dtn" None opr] bool
    show "ret opr = new_Type T_BOOL" by (simp add: cat(3))
  qed
  moreover have "length (filter (\<lambda>opr. op opr \<in> set rel_eq_ops) (Operators cat)) = 32"
    by (simp only: cat(2) all_operators_bool_count)
  ultimately show "\<exists>cat. builtins dtn = Some cat \<and>
      (\<forall>opr\<in>set (Operators cat). op opr \<in> set rel_eq_ops \<longrightarrow> ret opr = new_Type T_BOOL) \<and>
      (\<forall>sig opr. OperatorMap cat sig = Some opr \<longrightarrow> op opr \<in> set rel_eq_ops \<longrightarrow>
         ret opr = new_Type T_BOOL) \<and>
      length (filter (\<lambda>opr. op opr \<in> set rel_eq_ops) (Operators cat)) = 32"
    using cat(1) by blast
qed

theorem operator_return_types_witness:
  "define_builtin_bin_operator_gen token_name None [T_STAR] (Some T_MAT3) None [T_VEC3]
       Type_create_builtin
     = Some (add_operator (bin_operator_at token_name None (Some T_MAT3) None T_STAR T_VEC3)
               Type_create_builtin) \<and>
   define_builtin_unary_operator_gen token_name None [T_BANG] None [T_BOOL] Type_create_builtin
     = Some (add_operator (unary_operator_at token_name None None T_BANG T_BOOL)
               Type_create_builtin) \<and>
   (\<exists>new. Operators (add_operator (bin_operator_at token_name None (Some T_MAT3) None T_STAR T_VEC3)
                        Type_create_builtin) = new \<and>
      map (\<lambda>opr. (op opr, Some (ret opr))) new = [(T_STAR, Some (new_Type T_VEC3))]) \<and>
   (\<exists>new. Operators (add_operator (unary_operator_at token_name None None T_BANG T_BOOL)
                        Type_create_builtin) = new \<and>
      map (\<lambda>opr. (op opr, Some (ret opr))) new = [(T_BANG, Some (new_Type T_BOOL))])"
proof -
  have b: "define_builtin_bin_operator_gen token_name None [T_STAR] (Some T_MAT3) None [T_VEC3]
             Type_create_builtin
           = Some (add_operator (bin_operator_at token_name None (Some T_MAT3) None T_STAR T_VEC3)
                     Type_create_builtin)"
    using exec_operator_call [of Type_create_builtin "BinOp None [T_STAR] (Some T_MAT3) None [T_VEC3]"
        token_name]
    by (simp add: slot_ok_def btypetoks_def)
  have u: "define_builtin_unary_operator_gen token_name None [T_BANG] None [T_BOOL]
             Type_create_builtin
           = Some (add_operator (unary_operator_at token_name None None T_BANG T_BOOL)
                     Type_create_builtin)"
    using exec_operator_call [of Type_create_builtin "UnOp None [T_BANG] None [T_BOOL]" token_name]
    by (simp add: slot_ok_def btypetoks_def)
  have t: "builtin_type_of Type_create_builtin T_VEC3 = Some (new_Type T_VEC3)"
    "builtin_type_of Type_create_builtin T_BOOL = Some (new_Type T_BOOL)"
    by (simp_all add: builtin_type_of_builtin btypetoks_def)
  from operator_return_types
    [of token_name None "[T_STAR]" "Some T_MAT3" None "[T_VEC3]" Type_create_builtin
        "add_operator (bin_operator_at token_name None (Some T_MAT3) None T_STAR T_VEC3)
           Type_create_builtin"
        None
        "add_operator (unary_operator_at token_name None None T_BANG T_BOOL) Type_create_builtin"]
    b
  have "\<exists>new. Operators (add_operator (bin_operator_at token_name None (Some T_MAT3) None T_STAR T_VEC3)
                        Type_create_builtin) = new \<and>
      map (\<lambda>opr. (op opr, Some (ret opr))) new = [(T_STAR, Some (new_Type T_VEC3))]"
    by (simp add: bin_operator_at_def fill_def tables_create_builtin)
  moreover have "\<exists>new. Operators (add_operator (unary_operator_at token_name None None T_BANG T_BOOL)
                        Type_create_builtin) = new \<and>
      map (\<lambda>opr. (op opr, Some (ret opr))) new = [(T_BANG, Some (new_Type T_BOOL))]"
    by (simp add: unary_operator_at_def fill_def tables_create_builtin)
  ultimately show ?thesis using b u by blast
qed

section \<open>Duplicate registrations\<close>

text \<open>
  C2. The claim: registering a builtin function or operator under a signature that is
  already in its table leaves the table unchanged in size and content; the first
  registration wins. \<open>define_builtin_function\<close> does that (\<open>define_builtin_function_duplicate\<close>,
  \<open>build_functions_idem\<close>). The operator registrations do not: they have no test for a
  signature that is present (\<open>add_operator_duplicate\<close>). Registering \<open>+(int,int)\<close> a second time makes \<open>Operators\<close> one
  entry longer, and the later operator (here with return type \<open>bool\<close>) replaces the earlier
  one in \<open>OperatorMap\<close>. The module body itself registers \<open>+(float,mat3)\<close> twice, because its
  list of types names \<open>mat3\<close> twice and \<open>mat4\<close> not at all: the catalogue has two entries
  \<open>+(float,mat3)\<close> in \<open>Operators\<close> and none for \<open>+(float,mat4)\<close>.
\<close>

theorem duplicate_operator_registration_appends:
  "map_option (\<lambda>ex. (length (Operators ex), map_option ret (OperatorMap ex ''+(int,int)'')))
     (define_builtin_bin_operator_gen token_name None [T_PLUS] None None [T_INT]
        Type_create_builtin)
     = Some (1, Some (new_Type T_INT)) \<and>
   map_option (\<lambda>ex. (length (Operators ex), map_option ret (OperatorMap ex ''+(int,int)'')))
     (Option.bind
        (define_builtin_bin_operator_gen token_name None [T_PLUS] None None [T_INT]
           Type_create_builtin)
        (define_builtin_bin_operator_gen token_name (Some T_BOOL) [T_PLUS] None None [T_INT]))
     = Some (2, Some (new_Type T_BOOL)) \<and>
   map_option
     (\<lambda>cat. length (filter (\<lambda>opr. op opr = T_PLUS \<and> lhs opr = Some (new_Type T_FLOAT) \<and>
                                   rhs opr = Some (new_Type T_MAT3)) (Operators cat)))
     (builtins token_name) = Some 2 \<and>
   map_option
     (\<lambda>cat. filter (\<lambda>opr. op opr = T_PLUS \<and> lhs opr = Some (new_Type T_FLOAT) \<and>
                           rhs opr = Some (new_Type T_MAT4)) (Operators cat))
     (builtins token_name) = Some []"
proof -
  let ?e1 = "add_operator (bin_operator_at token_name None None None T_PLUS T_INT) Type_create_builtin"
  have first: "define_builtin_bin_operator_gen token_name None [T_PLUS] None None [T_INT]
                 Type_create_builtin = Some ?e1"
    using exec_operator_call [of Type_create_builtin "BinOp None [T_PLUS] None None [T_INT]" token_name]
    by (simp add: slot_ok_def btypetoks_def)
  have "builtin_types ?e1" by (simp add: builtin_types_def)
  then have second: "define_builtin_bin_operator_gen token_name (Some T_BOOL) [T_PLUS] None None [T_INT] ?e1
                  = Some (add_operator (bin_operator_at token_name (Some T_BOOL) None None T_PLUS T_INT) ?e1)"
    using exec_operator_call [of ?e1 "BinOp (Some T_BOOL) [T_PLUS] None None [T_INT]" token_name]
    by (simp add: slot_ok_def btypetoks_def)
  have sig: "fst (bin_operator_at token_name rt None None T_PLUS T_INT) = ''+(int,int)''" for rt
    by (simp add: bin_operator_at_def fill_def js_str_def Type_name_def token_name_def)
  have r: "ret (snd (bin_operator_at token_name rt None None T_PLUS T_INT)) = new_Type (fill T_INT rt)" for rt
    by (simp add: bin_operator_at_def)
  from builtins_operators [of token_name] obtain cat where cat: "builtins token_name = Some cat"
    "Operators cat = map snd (all_operators token_name)" by blast
  have dup: "length (filter (\<lambda>opr. op opr = T_PLUS \<and> lhs opr = Some (new_Type T_FLOAT) \<and>
                               rhs opr = Some (new_Type T_MAT3)) (Operators cat)) = 2"
    by (simp only: cat(2) float_mat3_entries)
  have one: "map_option (\<lambda>ex. (length (Operators ex), map_option ret (OperatorMap ex ''+(int,int)'')))
     (define_builtin_bin_operator_gen token_name None [T_PLUS] None None [T_INT]
        Type_create_builtin)
     = Some (1, Some (new_Type T_INT))"
    by (simp add: first sig r fill_def tables_create_builtin)
  have two: "map_option (\<lambda>ex. (length (Operators ex), map_option ret (OperatorMap ex ''+(int,int)'')))
     (Option.bind
        (define_builtin_bin_operator_gen token_name None [T_PLUS] None None [T_INT]
           Type_create_builtin)
        (define_builtin_bin_operator_gen token_name (Some T_BOOL) [T_PLUS] None None [T_INT]))
     = Some (2, Some (new_Type T_BOOL))"
    by (simp add: first second sig r fill_def tables_create_builtin)
  have none: "filter (\<lambda>opr. op opr = T_PLUS \<and> lhs opr = Some (new_Type T_FLOAT) \<and>
                         rhs opr = Some (new_Type T_MAT4)) (Operators cat) = []"
    by (simp only: cat(2) float_mat4_entries)
  from one two dup none show ?thesis by (simp add: cat(1))
qed

section \<open>Runtime error locations\<close>

text \<open>
  C6. The claim: an error whose stack has one of the two shapes gets a location, and for an
  error whose stack has neither shape the extraction returns \<open>null\<close> and the error is
  reported without a location. The earlier \<open>_extract_js_error_loc\<close> does not do that: for a
  stack with neither shape (first input) it throws a TypeError instead of returning \<open>null\<close>,
  and so does \<open>_handle_js_error\<close>; for a stack with Chrome's shape on its third line
  (second input) it throws as well. The later \<open>_extract_js_error_loc\<close> reports the first
  input on the console and locates the second at line 11, column 7 (see also
  \<open>later_extract_js_error_loc\<close>).
\<close>

theorem old_extract_js_error_loc_throws:
  "extract_js_error_loc_old
     \<lparr> message = ''boom'',
       stack = ''Error: boom'' @ [CHR 0x0A] @ ''    at run (app.js:10:5)'',
       originalStack = None \<rparr> = Inl TypeError \<and>
   handle_js_error_old
     \<lparr> message = ''boom'',
       stack = ''Error: boom'' @ [CHR 0x0A] @ ''    at run (app.js:10:5)'',
       originalStack = None \<rparr> = Inl TypeError \<and>
   handle_js_error
     \<lparr> message = ''boom'',
       stack = ''Error: boom'' @ [CHR 0x0A] @ ''    at run (app.js:10:5)'',
       originalStack = None \<rparr>
     = Console_error (''Error: boom'' @ [CHR 0x0A] @ ''    at run (app.js:10:5)'') \<and>
   extract_js_error_loc_old
     \<lparr> message = ''boom'',
       stack = ''Error: boom'' @ [CHR 0x0A] @ ''    at f (app.js:3:1)'' @ [CHR 0x0A]
                 @ ''    at eval (eval at run (app.js:1:1), <anonymous>:12:7)'',
       originalStack = None \<rparr> = Inl TypeError \<and>
   extract_js_error_loc
     \<lparr> message = ''boom'',
       stack = ''Error: boom'' @ [CHR 0x0A] @ ''    at f (app.js:3:1)'' @ [CHR 0x0A]
                 @ ''    at eval (eval at run (app.js:1:1), <anonymous>:12:7)'',
       originalStack = None \<rparr> = Some \<lparr> line = Num 11, column = Num 7 \<rparr>"
  by (simp add: extract_js_error_loc_old_def handle_js_error_old_def extract_js_error_loc_def
      handle_js_error_def stack_of_def anon_def func_def match_loc_def is_digit_def parseInt_def
      minus_one_def digit_val_def)

section \<open>The document store\<close>

text \<open>
  C8. The claim: \<open>Store.delete\<close> of a document with no \<open>id\<close> calls the callback with \<open>null\<close> and
  issues no delete request. The code calls the callback with \<open>null\<close> and then, for want of a
  \<open>return\<close>, opens the transaction and calls \<open>store.delete(undefined)\<close>; if the database
  answers that call, the callback is called a second time.
\<close>

theorem delete_without_id_calls_delete:
  "Store_delete (Map.empty :: (nat, unit) doc) Throws
     = [Callback None, Transaction ''readwrite'', StoreDelete None] \<and>
   Store_delete (Map.empty :: (nat, unit) doc) Succeeds
     = [Callback None, Transaction ''readwrite'', StoreDelete None, Callback (Some Map.empty)] \<and>
   Store_delete ([''title'' \<mapsto> Other ()] :: (nat, unit) doc) Fails
     = [Callback None, Transaction ''readwrite'', StoreDelete None, Callback None]"
  by (simp add: Store_delete_def)




text \<open>
  C10. The claim: \<open>Store.all\<close> delivers the stored documents in descending order of
  \<open>modification_time\<close>, and \<open>Store.last\<close> delivers \<open>null\<close> when no documents exist. Both methods
  read the index \<open>modification_time\<close>, which holds only the documents whose
  \<open>modification_time\<close> is a valid key: with one stored document (key 1) that has no
  \<open>modification_time\<close>, \<open>all\<close> delivers the empty array and \<open>last\<close> delivers \<open>null\<close>, though a
  document exists.
\<close>

theorem all_skips_document_without_modification_time:
  "Store_all [[''id'' \<mapsto> Key (1::nat), ''title'' \<mapsto> Other ()]] = Some [] \<and>
   Store_last [[''id'' \<mapsto> Key (1::nat), ''title'' \<mapsto> Other ()]] = Some None"
  by (simp add: Store_all_def Store_last_def open_cursor_prev_def index_records_def
      index_entries_def key_of_def)

text \<open>
  C10, amended. For every database state \<open>Store.all\<close> delivers the documents of the index
  \<open>modification_time\<close> (the stored documents whose \<open>modification_time\<close> is a valid key, each as
  often as it is stored) in descending order of \<open>modification_time\<close>, and \<open>Store.last\<close>
  delivers the first document of that sequence, or \<open>null\<close> when the sequence is empty. When
  every stored document has a valid \<open>modification_time\<close>, these are all the stored documents.
  (A stored document carries its primary key, a valid key, at \<open>id\<close>, the key path of the
  object store.)
\<close>

theorem all_descending_last_first:
  "\<exists>ds. Store_all db = Some ds \<and>
     mset ds = mset (filter (\<lambda>d. key_of (d ''modification_time'') \<noteq> None \<and>
                                 key_of (d ''id'') \<noteq> None) db) \<and>
     ((\<forall>d\<in>set db. key_of (d ''modification_time'') \<noteq> None \<and> key_of (d ''id'') \<noteq> None)
        \<longrightarrow> mset ds = mset db) \<and>
     (\<exists>ks. map (\<lambda>d. d ''modification_time'') ds = map (\<lambda>k. Some (Key k)) ks \<and> sorted (rev ks)) \<and>
     Store_last db = Some (case ds of [] \<Rightarrow> None | d # _ \<Rightarrow> Some d)"
proof -
  let ?ds = "rev (index_records ''modification_time'' db)"
  let ?ks = "rev (map (fst \<circ> fst) (sort_key fst (index_entries ''modification_time'' db)))"
  have "Store_all db = Some ?ds"
    by (simp add: Store_all_def open_cursor_prev_def all_handler_run)
  moreover have m: "mset ?ds = mset (filter (\<lambda>d. key_of (d ''modification_time'') \<noteq> None \<and>
                                key_of (d ''id'') \<noteq> None) db)"
    by (simp only: mset_rev mset_index_records)
  moreover have "mset ?ds = mset db"
    if "\<forall>d\<in>set db. key_of (d ''modification_time'') \<noteq> None \<and> key_of (d ''id'') \<noteq> None"
  proof -
    from that have "filter (\<lambda>d. key_of (d ''modification_time'') \<noteq> None \<and>
                                key_of (d ''id'') \<noteq> None) db = db"
      by (simp only: filter_id_conv)
    with m show ?thesis by (simp only:)
  qed
  moreover have "map (\<lambda>d. d ''modification_time'') ?ds = map (\<lambda>k. Some (Key k)) ?ks"
    by (simp only: rev_map [symmetric] index_records_keys)
  moreover have "sorted (rev ?ks)"
    by (simp only: rev_rev_ident index_records_sorted)
  moreover have "Store_last db = Some (case ?ds of [] \<Rightarrow> None | d # _ \<Rightarrow> Some d)"
    by (simp add: Store_last_def open_cursor_prev_def last_handler_run)
  ultimately show ?thesis by blast
qed

theorem all_descending_last_first_witness:
  "Store_all [[''id'' \<mapsto> Key (1::nat), ''modification_time'' \<mapsto> Key 10, ''title'' \<mapsto> Other ()],
              [''id'' \<mapsto> Key 2, ''modification_time'' \<mapsto> Key 20]]
     = Some [[''id'' \<mapsto> Key 2, ''modification_time'' \<mapsto> Key 20],
             [''id'' \<mapsto> Key 1, ''modification_time'' \<mapsto> Key 10, ''title'' \<mapsto> Other ()]] \<and>
   Store_last [[''id'' \<mapsto> Key (1::nat), ''modification_time'' \<mapsto> Key 10, ''title'' \<mapsto> Other ()],
               [''id'' \<mapsto> Key 2, ''modification_time'' \<mapsto> Key 20]]
     = Some (Some [''id'' \<mapsto> Key 2, ''modification_time'' \<mapsto> Key 20])"
proof -
  let ?d1 = "[''id'' \<mapsto> Key (1::nat), ''modification_time'' \<mapsto> Key 10, ''title'' \<mapsto> Other ()]
               :: (nat, unit) doc"
  let ?d2 = "[''id'' \<mapsto> Key (2::nat), ''modification_time'' \<mapsto> Key 20] :: (nat, unit) doc"
  have a: "Store_all [?d1, ?d2] = Some [?d2, ?d1]"
    by (simp add: Store_all_def open_cursor_prev_def index_records_def index_entries_def key_of_def)
  have k: "\<forall>d\<in>set [?d1, ?d2]. key_of (d ''modification_time'') \<noteq> None \<and> key_of (d ''id'') \<noteq> None"
    by (simp add: key_of_def)
  from all_descending_last_first [of "[?d1, ?d2]"] obtain ds
    where ds: "Store_all [?d1, ?d2] = Some ds"
      "(\<forall>d\<in>set [?d1, ?d2]. key_of (d ''modification_time'') \<noteq> None \<and> key_of (d ''id'') \<noteq> None)
         \<longrightarrow> mset ds = mset [?d1, ?d2]"
      "Store_last [?d1, ?d2] = Some (case ds of [] \<Rightarrow> None | d # _ \<Rightarrow> Some d)"
    by blast
  from ds(2) k have "mset ds = mset [?d1, ?d2]" by (rule mp)
  from ds(1) a have "ds = [?d2, ?d1]" by simp
  with ds(3) have "Store_last [?d1, ?d2] = Some (Some ?d2)" by simp
  with a show ?thesis by simp
qed

end
